theory Spec2Isabelle
  imports Main "HOL-Library.Word"
begin

unbundle bit_operations_syntax

section \<open>Errors and formatted text\<close>

text \<open>
  A Go \<^verbatim>\<open>error\<close> is modelled by its message (what \<^verbatim>\<open>err.Error()\<close> returns).
  \<^verbatim>\<open>fmt.Errorf("prefix: %w", err)\<close> yields the prefix followed by the message of the
  wrapped error.
\<close>

datatype error = Error (msg: string)

definition Errorf_w :: "string \<Rightarrow> error \<Rightarrow> error" where
  "Errorf_w prefix e = Error (prefix @ msg e)"

definition digit_char :: "nat \<Rightarrow> char" where
  "digit_char d = ''0123456789'' ! d"

text \<open>
  The digits of an unsigned number in base \<open>b\<close>, most significant first, as the verbs
  \<^verbatim>\<open>%o\<close> (base 8) and \<^verbatim>\<open>%d\<close> (base 10) of Go's \<^verbatim>\<open>fmt\<close> print them.
\<close>

function fmt_uint :: "nat \<Rightarrow> nat \<Rightarrow> string" where
  "fmt_uint b n =
     (if b < 2 \<or> n < b then [digit_char n]
      else fmt_uint b (n div b) @ [digit_char (n mod b)])"
  by pat_completeness auto
termination
  by (relation "measure (\<lambda>(b, n). n)") auto

declare fmt_uint.simps [simp del]

definition fmt_o :: "32 word \<Rightarrow> string" where
  "fmt_o m = fmt_uint 8 (unat m)"

definition fmt_d :: "int \<Rightarrow> string" where
  "fmt_d i = (if i < 0 then CHR ''-'' # fmt_uint 10 (nat (- i)) else fmt_uint 10 (nat i))"

section \<open>Configuration (main.go)\<close>

record Config =
  APISecret :: string
  BaseURL :: string
  Username :: string
  Timeout :: int

subsection \<open>The path functions of Go's path/filepath that loadConfig calls (Unix)\<close>

text \<open>
  \<^verbatim>\<open>filepath.Join\<close> joins its non-empty elements with a slash and cleans the result
  lexically. \<^verbatim>\<open>filepath.Clean\<close> scans the path once, writing to an output buffer:
  empty elements and \<^verbatim>\<open>.\<close> are skipped, \<^verbatim>\<open>..\<close> removes the element written last
  (down to the index \<open>dotdot\<close>, below which nothing is removed), any other element is
  copied. The buffer is a list here, its write index its length.
\<close>

function backtrack :: "string \<Rightarrow> nat \<Rightarrow> nat \<Rightarrow> nat" where
  "backtrack buf dotdot w =
     (if w > dotdot \<and> buf ! w \<noteq> CHR ''/'' then backtrack buf dotdot (w - 1) else w)"
  by pat_completeness auto
termination
  by (relation "measure (\<lambda>(buf, dotdot, w). w)") auto

declare backtrack.simps [simp del]

function clean_loop :: "bool \<Rightarrow> string \<Rightarrow> string \<Rightarrow> nat \<Rightarrow> string" where
  "clean_loop rooted [] out dotdot = out"
| "clean_loop rooted (c # rest) out dotdot =
     (if c = CHR ''/'' then clean_loop rooted rest out dotdot
      else if c = CHR ''.'' \<and> (rest = [] \<or> hd rest = CHR ''/'') then
        clean_loop rooted rest out dotdot
      else if c = CHR ''.'' \<and> hd rest = CHR ''.'' \<and> (tl rest = [] \<or> hd (tl rest) = CHR ''/'') then
        (if length out > dotdot then
           clean_loop rooted (tl rest) (take (backtrack out dotdot (length out - 1)) out) dotdot
         else if \<not> rooted then
           clean_loop rooted (tl rest)
             ((if length out > 0 then out @ ''/'' else out) @ ''..'')
             (length ((if length out > 0 then out @ ''/'' else out) @ ''..''))
         else clean_loop rooted (tl rest) out dotdot)
      else
        clean_loop rooted (dropWhile (\<lambda>x. x \<noteq> CHR ''/'') rest)
          ((if (rooted \<and> length out \<noteq> 1) \<or> (\<not> rooted \<and> length out \<noteq> 0) then out @ ''/'' else out)
             @ c # takeWhile (\<lambda>x. x \<noteq> CHR ''/'') rest)
          dotdot)"
  by pat_completeness auto
termination
proof (relation "measure (\<lambda>(rooted, path, out, dotdot). length path)")
  show "wf (measure (\<lambda>(rooted, path, out, dotdot). length path))" by simp
qed (auto simp: less_Suc_eq_le length_dropWhile_le intro: le_trans [OF diff_le_self])

declare clean_loop.simps(2) [simp del]

definition filepath_Clean :: "string \<Rightarrow> string" where
  "filepath_Clean path =
     (if path = [] then ''.''
      else if hd path = CHR ''/'' then clean_loop True (tl path) ''/'' 1
      else (let out = clean_loop False path [] 0 in if out = [] then ''.'' else out))"

definition filepath_Join :: "string \<Rightarrow> string \<Rightarrow> string" where
  "filepath_Join a b =
     (if a \<noteq> [] then filepath_Clean (a @ ''/'' @ b)
      else if b \<noteq> [] then filepath_Clean b
      else [])"

subsection \<open>The operating system as loadConfig sees it\<close>

text \<open>
  The home directory lookup, \<^verbatim>\<open>os.Stat\<close> (giving the \<^verbatim>\<open>FileMode\<close> of the file, a
  32-bit word), \<^verbatim>\<open>ioutil.ReadFile\<close> and \<^verbatim>\<open>json.Unmarshal\<close> into a zero \<^verbatim>\<open>Config\<close>
  are the collaborators of the loader. Every file access is recorded, in order.
\<close>

datatype fs_call = StatCall string | ReadFileCall string

record os_env =
  UserHomeDir :: "error + string"
  Stat :: "string \<Rightarrow> error + 32 word"
  ReadFile :: "string \<Rightarrow> error + string"
  Unmarshal :: "string \<Rightarrow> error + Config"

definition Perm :: "32 word \<Rightarrow> 32 word" where
  "Perm m = m AND 0x1FF"

text \<open>Lines 50 to 56 of loadConfig: a leading tilde is replaced by the home directory.\<close>

definition expandHome :: "os_env \<Rightarrow> string \<Rightarrow> error + string" where
  "expandHome env path =
     (if length path > 0 \<and> path ! 0 = CHR ''~'' then
        (case UserHomeDir env of
           Inl e \<Rightarrow> Inl (Errorf_w ''failed to get home directory: '' e)
         | Inr home \<Rightarrow> Inr (filepath_Join home (drop 1 path)))
      else Inr path)"

text \<open>The permission mask 0600 (octal) is \<open>0x180\<close>.\<close>

definition loadConfig :: "os_env \<Rightarrow> string \<Rightarrow> fs_call list \<times> (error + Config)" where
  "loadConfig env path0 =
     (case expandHome env path0 of
        Inl e \<Rightarrow> ([], Inl e)
      | Inr path \<Rightarrow>
          (case Stat env path of
             Inl e \<Rightarrow> ([StatCall path], Inl (Errorf_w ''failed to stat config file: '' e))
           | Inr info \<Rightarrow>
               if Perm info \<noteq> 0x180 then
                 ([StatCall path],
                  Inl (Error (''config file must have 0600 permissions, has '' @ fmt_o (Perm info))))
               else
                 (case ReadFile env path of
                    Inl e \<Rightarrow>
                      ([StatCall path, ReadFileCall path],
                       Inl (Errorf_w ''failed to read config file: '' e))
                  | Inr data \<Rightarrow>
                      (case Unmarshal env data of
                         Inl e \<Rightarrow>
                           ([StatCall path, ReadFileCall path],
                            Inl (Errorf_w ''failed to parse config JSON: '' e))
                       | Inr config \<Rightarrow>
                           if APISecret config = [] then
                             ([StatCall path, ReadFileCall path],
                              Inl (Error ''api_secret is required in config file''))
                           else if BaseURL config = [] then
                             ([StatCall path, ReadFileCall path],
                              Inl (Error ''base_url is required in config file''))
                           else ([StatCall path, ReadFileCall path], Inr config)))))"

section \<open>HTTP client wrapper (api_client.go)\<close>

text \<open>
  A request as \<^verbatim>\<open>http.NewRequest\<close> builds it: method, URL, headers, optional body.
  Its URL is not the string the caller gave but the \<^verbatim>\<open>url.URL\<close> that the library
  parsed from it, a value of a type \<open>'u\<close> of the library's. A response is its status code
  and what \<^verbatim>\<open>ioutil.ReadAll\<close> gives on its body: the bytes read and the read error,
  if any.
\<close>

record 'u request =
  Method :: string
  URL :: 'u
  Header :: "string \<rightharpoonup> string list"
  Body :: "string option"

record response =
  StatusCode :: int
  ReadAll :: "string \<times> error option"

text \<open>
  The collaborators of the client: \<^verbatim>\<open>json.Marshal\<close> on a payload of any type,
  \<^verbatim>\<open>url.Parse\<close>, which \<^verbatim>\<open>http.NewRequest\<close> applies to the URL string (it may
  reject the string, and the URL it returns may differ from the string when written out
  again: a space in the path is percent-encoded, for one), and the transport
  \<^verbatim>\<open>httpClient.Do\<close>, which depends on the client's timeout.
\<close>

record ('p, 'u) http_env =
  Marshal :: "'p \<Rightarrow> error + string"
  url_Parse :: "string \<Rightarrow> error + 'u"
  Do :: "64 word \<Rightarrow> 'u request \<Rightarrow> error + response"

text \<open>
  \<^verbatim>\<open>http.NewRequest\<close> with one of the four methods of the client, which are all
  valid: the URL string is parsed, and the request holds the parsed URL.
\<close>

definition http_NewRequest ::
  "('p, 'u) http_env \<Rightarrow> string \<Rightarrow> string \<Rightarrow> string option \<Rightarrow> error + 'u request" where
  "http_NewRequest env method url body =
     (case url_Parse env url of
        Inl e \<Rightarrow> Inl e
      | Inr u \<Rightarrow> Inr \<lparr>Method = method, URL = u, Header = Map.empty, Body = body\<rparr>)"

text \<open>\<^verbatim>\<open>req.Header.Set\<close>: the key (already in canonical form here) gets exactly one value.\<close>

definition Header_Set :: "'u request \<Rightarrow> string \<Rightarrow> string \<Rightarrow> 'u request" where
  "Header_Set req key v = req\<lparr>Header := (Header req)(key \<mapsto> [v])\<rparr>"

record APIClient =
  config :: Config
  httpClient :: "64 word"

text \<open>The client's timeout is a \<^verbatim>\<open>time.Duration\<close>: signed 64-bit nanoseconds.\<close>

definition NewAPIClient :: "Config \<Rightarrow> APIClient" where
  "NewAPIClient cfg =
     \<lparr>config = cfg,
      httpClient = word_of_int (if Timeout cfg > 0 then Timeout cfg else 30) * 1000000000\<rparr>"

definition api_error :: "int \<Rightarrow> string \<Rightarrow> error" where
  "api_error status body = Error (''API error (status '' @ fmt_d status @ ''): '' @ body)"

definition Get ::
  "('p, 'u) http_env \<Rightarrow> APIClient \<Rightarrow> string \<Rightarrow> 'u request list \<times> (error + string)" where
  "Get env c endpoint =
     (let url = BaseURL (config c) @ ''/'' @ endpoint in
      case http_NewRequest env ''GET'' url None of
        Inl e \<Rightarrow> ([], Inl (Errorf_w ''failed to create request: '' e))
      | Inr req0 \<Rightarrow>
          (let req = Header_Set (Header_Set req0 ''Authorization'' (APISecret (config c)))
                       ''Content-Type'' ''application/json'' in
           case Do env (httpClient c) req of
             Inl e \<Rightarrow> ([req], Inl (Errorf_w ''request failed: '' e))
           | Inr resp \<Rightarrow>
               (case ReadAll resp of
                  (body, Some e) \<Rightarrow> ([req], Inl (Errorf_w ''failed to read response: '' e))
                | (body, None) \<Rightarrow>
                    if StatusCode resp < 200 \<or> StatusCode resp \<ge> 300 then
                      ([req], Inl (api_error (StatusCode resp) body))
                    else ([req], Inr body))))"

definition Post ::
  "('p, 'u) http_env \<Rightarrow> APIClient \<Rightarrow> string \<Rightarrow> 'p \<Rightarrow> 'u request list \<times> (error + string)" where
  "Post env c endpoint payload =
     (let url = BaseURL (config c) @ ''/'' @ endpoint in
      case Marshal env payload of
        Inl e \<Rightarrow> ([], Inl (Errorf_w ''failed to marshal payload: '' e))
      | Inr jsonData \<Rightarrow>
          (case http_NewRequest env ''POST'' url (Some jsonData) of
             Inl e \<Rightarrow> ([], Inl (Errorf_w ''failed to create request: '' e))
           | Inr req0 \<Rightarrow>
               (let req = Header_Set (Header_Set req0 ''Authorization'' (APISecret (config c)))
                            ''Content-Type'' ''application/json'' in
                case Do env (httpClient c) req of
                  Inl e \<Rightarrow> ([req], Inl (Errorf_w ''request failed: '' e))
                | Inr resp \<Rightarrow>
                    (case ReadAll resp of
                       (body, Some e) \<Rightarrow> ([req], Inl (Errorf_w ''failed to read response: '' e))
                     | (body, None) \<Rightarrow>
                         if StatusCode resp < 200 \<or> StatusCode resp \<ge> 300 then
                           ([req], Inl (api_error (StatusCode resp) body))
                         else ([req], Inr body)))))"

definition Put ::
  "('p, 'u) http_env \<Rightarrow> APIClient \<Rightarrow> string \<Rightarrow> 'p \<Rightarrow> 'u request list \<times> (error + string)" where
  "Put env c endpoint payload =
     (let url = BaseURL (config c) @ ''/'' @ endpoint in
      case Marshal env payload of
        Inl e \<Rightarrow> ([], Inl (Errorf_w ''failed to marshal payload: '' e))
      | Inr jsonData \<Rightarrow>
          (case http_NewRequest env ''PUT'' url (Some jsonData) of
             Inl e \<Rightarrow> ([], Inl (Errorf_w ''failed to create request: '' e))
           | Inr req0 \<Rightarrow>
               (let req = Header_Set (Header_Set req0 ''Authorization'' (APISecret (config c)))
                            ''Content-Type'' ''application/json'' in
                case Do env (httpClient c) req of
                  Inl e \<Rightarrow> ([req], Inl (Errorf_w ''request failed: '' e))
                | Inr resp \<Rightarrow>
                    (case ReadAll resp of
                       (body, Some e) \<Rightarrow> ([req], Inl (Errorf_w ''failed to read response: '' e))
                     | (body, None) \<Rightarrow>
                         if StatusCode resp < 200 \<or> StatusCode resp \<ge> 300 then
                           ([req], Inl (api_error (StatusCode resp) body))
                         else ([req], Inr body)))))"

text \<open>
  Delete returns only an error (\<open>None\<close> is Go's \<^verbatim>\<open>nil\<close>). It reads the body only
  after a status outside the success range, and ignores a read error there.
\<close>

definition Delete ::
  "('p, 'u) http_env \<Rightarrow> APIClient \<Rightarrow> string \<Rightarrow> 'u request list \<times> error option" where
  "Delete env c endpoint =
     (let url = BaseURL (config c) @ ''/'' @ endpoint in
      case http_NewRequest env ''DELETE'' url None of
        Inl e \<Rightarrow> ([], Some (Errorf_w ''failed to create request: '' e))
      | Inr req0 \<Rightarrow>
          (let req = Header_Set (Header_Set req0 ''Authorization'' (APISecret (config c)))
                       ''Content-Type'' ''application/json'' in
           case Do env (httpClient c) req of
             Inl e \<Rightarrow> ([req], Some (Errorf_w ''request failed: '' e))
           | Inr resp \<Rightarrow>
               if StatusCode resp < 200 \<or> StatusCode resp \<ge> 300 then
                 ([req], Some (api_error (StatusCode resp) (fst (ReadAll resp))))
               else ([req], None)))"

section \<open>Workflow registry and dispatcher (main.go)\<close>

text \<open>
  The registry is a global map from names to handlers; the model passes it explicitly.
  A handler is a value of any type \<open>'h\<close>; what its \<^verbatim>\<open>Execute\<close> does is given by the
  environment.
\<close>

type_synonym 'h registry = "string \<rightharpoonup> 'h"

definition RegisterWorkflow :: "string \<Rightarrow> 'h \<Rightarrow> 'h registry \<Rightarrow> 'h registry" where
  "RegisterWorkflow name workflow WorkflowRegistry = WorkflowRegistry(name \<mapsto> workflow)"

text \<open>
  How a call ends: it returns an error value (\<open>None\<close> is \<^verbatim>\<open>nil\<close>), or it ends the
  process itself with an exit status, as a flag set created with
  \<^verbatim>\<open>flag.ExitOnError\<close> does on a malformed flag. A run is what the call printed on
  the two streams and how it ended.
\<close>

datatype ret = Returned "error option" | Exited int

record run =
  r_out :: string
  r_err :: string
  r_ret :: ret

text \<open>
  The outcome of parsing with Go's \<^verbatim>\<open>flag\<close> package: the values of the flags (and,
  for the global flags, the remaining arguments), or text printed and an exit status.
  An empty argument list leaves every flag at its default; everything else is the
  library's.
\<close>

datatype 'a parsed = Parsed 'a | ParseExit string string int

definition FlagSet_Parse :: "(string list \<Rightarrow> 'a parsed) \<Rightarrow> 'a \<Rightarrow> string list \<Rightarrow> 'a parsed" where
  "FlagSet_Parse lib defaults args = (if args = [] then Parsed defaults else lib args)"

record 'h cli_env =
  os :: os_env
  flag_Parse :: "string list \<Rightarrow> (string \<times> bool \<times> string list) parsed"
  verify_Parse :: "string list \<Rightarrow> bool parsed"
  Execute :: "'h \<Rightarrow> Config \<Rightarrow> string list \<Rightarrow> run"
  range_keys :: "'h registry \<Rightarrow> string list"

definition nl :: string where
  "nl = [CHR 0x0A]"

definition Println :: "string \<Rightarrow> string" where
  "Println s = s @ nl"

text \<open>
  printUsage writes to standard output. The names of the registry come in the order in
  which \<^verbatim>\<open>range\<close> yields the keys of the map, which the runtime chooses.
\<close>

definition printUsage :: "string list \<Rightarrow> string" where
  "printUsage names =
     Println ''CyberArk API Command Harness''
     @ Println (nl @ ''Usage:'')
     @ Println ''  cyberark [--global-options] workflow_name [--workflow-options]''
     @ Println (nl @ ''Global Options:'')
     @ Println ''  -c, --config PATH    Path to configuration file (default: ~/.cyberark_api)''
     @ Println ''  -h, --help           Show this help message''
     @ Println (nl @ ''Built-in Workflows:'')
     @ Println ''  verify               Verify API connectivity''
     @ Println (nl @ ''Registered Workflows:'')
     @ concat (map (\<lambda>name. ''  '' @ name @ nl) names)
     @ Println (nl @ ''For workflow-specific help:'')
     @ Println ''  cyberark workflow_name --help''"

text \<open>The check mark of the source is the three bytes E2 9C 93 in UTF-8.\<close>

definition check_mark :: string where
  "check_mark = [CHR 0xE2, CHR 0x9C, CHR 0x93]"

definition verifyConnectivity :: "'h cli_env \<Rightarrow> Config \<Rightarrow> string list \<Rightarrow> run" where
  "verifyConnectivity env cfg args =
     (case FlagSet_Parse (verify_Parse env) False args of
        ParseExit out err code \<Rightarrow> \<lparr>r_out = out, r_err = err, r_ret = Exited code\<rparr>
      | Parsed help \<Rightarrow>
          if help then
            \<lparr>r_out =
               Println ''Verify Workflow - Test CyberArk API connectivity''
               @ Println (nl @ ''Usage:'')
               @ Println ''  cyberark verify [options]''
               @ Println (nl @ ''Options:'')
               @ Println ''  -h, --help    Show this help message'',
             r_err = [], r_ret = Returned None\<rparr>
          else
            \<lparr>r_out =
               Println ''Verifying CyberArk API connectivity...''
               @ ''Base URL: '' @ BaseURL cfg @ nl
               @ Println ''API Secret: [REDACTED]''
               @ Println (nl @ check_mark @ '' Configuration loaded successfully'')
               @ Println (check_mark @ '' API credentials present'')
               @ Println (nl @ ''Note: Actual API connectivity test not yet implemented''),
             r_err = [], r_ret = Returned None\<rparr>)"

text \<open>
  What one run of the program does: the text on the two streams, the exit status, the
  file accesses made, and the calls of a handler's \<^verbatim>\<open>Execute\<close>.
\<close>

record 'h proc =
  stdout :: string
  stderr :: string
  exit_code :: int
  accessed :: "fs_call list"
  executed :: "('h \<times> Config \<times> string list) list"

definition main :: "'h cli_env \<Rightarrow> 'h registry \<Rightarrow> string list \<Rightarrow> 'h proc" where
  "main env WorkflowRegistry argv =
     (case FlagSet_Parse (flag_Parse env) (''~/.cyberark_api'', False, []) argv of
        ParseExit out err code \<Rightarrow>
          \<lparr>stdout = out, stderr = err, exit_code = code, accessed = [], executed = []\<rparr>
      | Parsed (configPath, showHelp, args) \<Rightarrow>
          if showHelp then
            \<lparr>stdout = printUsage (range_keys env WorkflowRegistry), stderr = [], exit_code = 0,
             accessed = [], executed = []\<rparr>
          else if length args = 0 then
            \<lparr>stdout = Println ''Error: workflow name required''
                        @ printUsage (range_keys env WorkflowRegistry),
             stderr = [], exit_code = 1, accessed = [], executed = []\<rparr>
          else
            (let workflowName = args ! 0; workflowArgs = drop 1 args in
             case loadConfig (os env) configPath of
               (acc, Inl e) \<Rightarrow>
                 \<lparr>stdout = [], stderr = ''Error loading config: '' @ msg e @ nl, exit_code = 1,
                  accessed = acc, executed = []\<rparr>
             | (acc, Inr cfg) \<Rightarrow>
                 if workflowName = ''verify'' then
                   (let r = verifyConnectivity env cfg workflowArgs in
                    case r_ret r of
                      Exited code \<Rightarrow>
                        \<lparr>stdout = r_out r, stderr = r_err r, exit_code = code,
                         accessed = acc, executed = []\<rparr>
                    | Returned (Some e) \<Rightarrow>
                        \<lparr>stdout = r_out r, stderr = r_err r @ ''Error: '' @ msg e @ nl,
                         exit_code = 1, accessed = acc, executed = []\<rparr>
                    | Returned None \<Rightarrow>
                        \<lparr>stdout = r_out r, stderr = r_err r, exit_code = 0,
                         accessed = acc, executed = []\<rparr>)
                 else
                   (case WorkflowRegistry workflowName of
                      None \<Rightarrow>
                        \<lparr>stdout = printUsage (range_keys env WorkflowRegistry),
                         stderr = ''Error: unknown workflow '' @ [CHR 0x27] @ workflowName
                                    @ [CHR 0x27] @ nl,
                         exit_code = 1, accessed = acc, executed = []\<rparr>
                    | Some workflow \<Rightarrow>
                        (let r = Execute env workflow cfg workflowArgs in
                         case r_ret r of
                           Exited code \<Rightarrow>
                             \<lparr>stdout = r_out r, stderr = r_err r, exit_code = code,
                              accessed = acc, executed = [(workflow, cfg, workflowArgs)]\<rparr>
                         | Returned (Some e) \<Rightarrow>
                             \<lparr>stdout = r_out r,
                              stderr = r_err r @ ''Error executing workflow: '' @ msg e @ nl,
                              exit_code = 1, accessed = acc,
                              executed = [(workflow, cfg, workflowArgs)]\<rparr>
                         | Returned None \<Rightarrow>
                             \<lparr>stdout = r_out r, stderr = r_err r, exit_code = 0,
                              accessed = acc, executed = [(workflow, cfg, workflowArgs)]\<rparr>))))"

section \<open>Concrete environments\<close>

text \<open>
  A small file system for a user whose home is \<^verbatim>\<open>/home/u\<close>: four configuration files
  with mode 0600 and one with mode 0644 (\<open>0x1A4\<close>); no other path exists. The decoder
  is given on the three contents that occur; nothing is said of any other content.
\<close>

definition quoted :: "string \<Rightarrow> string" where
  "quoted s = CHR 0x22 # s @ [CHR 0x22]"

definition json2 :: "string \<Rightarrow> string \<Rightarrow> string \<Rightarrow> string \<Rightarrow> string" where
  "json2 k1 v1 k2 v2 =
     ''{'' @ quoted k1 @ '':'' @ quoted v1 @ '','' @ quoted k2 @ '':'' @ quoted v2 @ ''}''"

definition unix_os :: os_env where
  "unix_os =
     \<lparr>UserHomeDir = Inr ''/home/u'',
      Stat = (\<lambda>p.
        if p \<in> {''/home/u/.cyberark_api'', ''/home/u/.x'', ''/home/u/nosecret.json'',
                 ''/home/u/nourl.json''} then Inr 0x180
        else if p = ''/home/u/open.json'' then Inr 0x1A4
        else Inl (Error (''stat '' @ p @ '': no such file or directory''))),
      ReadFile = (\<lambda>p.
        if p \<in> {''/home/u/.cyberark_api'', ''/home/u/.x'', ''/home/u/open.json''} then
          Inr (json2 ''api_secret'' ''s'' ''base_url'' ''https://h/api'')
        else if p = ''/home/u/nosecret.json'' then
          Inr (json2 ''username'' ''u'' ''base_url'' ''https://h/api'')
        else if p = ''/home/u/nourl.json'' then
          Inr (json2 ''api_secret'' ''s'' ''username'' ''u'')
        else Inl (Error (''open '' @ p @ '': no such file or directory''))),
      Unmarshal = (\<lambda>data.
        if data = json2 ''api_secret'' ''s'' ''base_url'' ''https://h/api'' then
          Inr \<lparr>APISecret = ''s'', BaseURL = ''https://h/api'', Username = [], Timeout = 0\<rparr>
        else if data = json2 ''username'' ''u'' ''base_url'' ''https://h/api'' then
          Inr \<lparr>APISecret = [], BaseURL = ''https://h/api'', Username = ''u'', Timeout = 0\<rparr>
        else if data = json2 ''api_secret'' ''s'' ''username'' ''u'' then
          Inr \<lparr>APISecret = ''s'', BaseURL = [], Username = ''u'', Timeout = 0\<rparr>
        else undefined)\<rparr>"

text \<open>The same system with another secret in every configuration file.\<close>

definition unix_os2 :: os_env where
  "unix_os2 =
     unix_os\<lparr>Unmarshal := (\<lambda>data.
        case Unmarshal unix_os data of
          Inl e \<Rightarrow> Inl e
        | Inr cfg \<Rightarrow> Inr (cfg\<lparr>APISecret := ''another-secret''\<rparr>))\<rparr>"

text \<open>
  A server seen through three URL strings; nothing is said of any other string. A parsed
  URL is given by its written form (\<^verbatim>\<open>u.String()\<close>): the two plain URLs are written as
  they were given, and the space of the third is percent-encoded. The server answers 404
  with the body \<^verbatim>\<open>not found\<close> under the first URL and 204 with an empty body under the
  others; the one payload is the string \<^verbatim>\<open>p\<close>, marshalled to a JSON string.
\<close>

definition test_url_Parse :: "string \<Rightarrow> error + string" where
  "test_url_Parse s =
     (if s = ''https://h/api/missing'' \<or> s = ''https://h/api/ok'' then Inr s
      else if s = ''https://h/api/a b'' then Inr ''https://h/api/a%20b''
      else undefined)"

definition test_server :: "(string, string) http_env" where
  "test_server =
     \<lparr>Marshal = (\<lambda>p. if p = ''p'' then Inr (quoted p) else undefined),
      url_Parse = test_url_Parse,
      Do = (\<lambda>timeout req.
        if URL req = ''https://h/api/missing'' then
          Inr \<lparr>StatusCode = 404, ReadAll = (''not found'', None)\<rparr>
        else Inr \<lparr>StatusCode = 204, ReadAll = ([], None)\<rparr>)\<rparr>"

text \<open>
  The same server on a connection that breaks while the body is read: status 200 and
  nothing read under \<^verbatim>\<open>ok\<close>, status 500 and three bytes read under the other URLs.
\<close>

definition broken_server :: "(string, string) http_env" where
  "broken_server =
     test_server\<lparr>Do := (\<lambda>timeout req.
        if URL req = ''https://h/api/ok'' then
          Inr \<lparr>StatusCode = 200, ReadAll = ([], Some (Error ''unexpected EOF''))\<rparr>
        else Inr \<lparr>StatusCode = 500, ReadAll = (''int'', Some (Error ''unexpected EOF''))\<rparr>)\<rparr>"

definition test_client :: APIClient where
  "test_client =
     NewAPIClient \<lparr>APISecret = ''s'', BaseURL = ''https://h/api'', Username = [], Timeout = 0\<rparr>"

text \<open>
  A command line for the examples. Go's flag parsing stops at the first argument that is
  not a flag (one shorter than two characters or not starting with a dash), so an
  argument list that starts with such an argument is all positional and leaves the flags
  at their defaults; nothing is said of the other argument lists. Handlers are numbers;
  every handler prints one line and returns \<^verbatim>\<open>nil\<close>. A registry with no names but
  \<^verbatim>\<open>list-accounts\<close> and \<^verbatim>\<open>verify\<close> yields its names in this order.
\<close>

definition starts_positional :: "string list \<Rightarrow> bool" where
  "starts_positional args =
     (args \<noteq> [] \<and> (length (hd args) < 2 \<or> hd (hd args) \<noteq> CHR ''-''))"

definition test_cli :: "os_env \<Rightarrow> nat cli_env" where
  "test_cli fs =
     \<lparr>os = fs,
      flag_Parse = (\<lambda>argv.
        if starts_positional argv then Parsed (''~/.cyberark_api'', False, argv) else undefined),
      verify_Parse = (\<lambda>args. if starts_positional args then Parsed False else undefined),
      Execute = (\<lambda>h cfg args.
        \<lparr>r_out = Println ''handler ran'', r_err = [], r_ret = Returned None\<rparr>),
      range_keys = (\<lambda>reg.
        if dom reg \<subseteq> {''list-accounts'', ''verify''} then
          filter (\<lambda>n. reg n \<noteq> None) [''list-accounts'', ''verify'']
        else undefined)\<rparr>"

section \<open>The registry\<close>

text \<open>
  C7. Registering \<open>h1\<close> and then \<open>h2\<close> under the same name leaves \<open>h2\<close>, and only
  \<open>h2\<close>, resolvable under that name; what is registered under any other name is as it
  was before.
\<close>

theorem RegisterWorkflow_last_wins:
  "RegisterWorkflow name h2 (RegisterWorkflow name h1 reg) name = Some h2
   \<and> (\<forall>other. other \<noteq> name \<longrightarrow>
         RegisterWorkflow name h2 (RegisterWorkflow name h1 reg) other = reg other)"
  by (simp add: RegisterWorkflow_def)

theorem RegisterWorkflow_last_wins_witness:
  "RegisterWorkflow ''a'' (2::nat) (RegisterWorkflow ''a'' 1 [''b'' \<mapsto> 7]) ''a'' = Some 2
   \<and> ''b'' \<noteq> ''a''
   \<and> RegisterWorkflow ''a'' (2::nat) (RegisterWorkflow ''a'' 1 [''b'' \<mapsto> 7]) ''b'' = Some 7"
  using RegisterWorkflow_last_wins [of "''a''" "2::nat" 1 "[''b'' \<mapsto> 7]"]
  by simp

section \<open>The configuration loader\<close>

lemma expandHome_content:
  "expandHome (env\<lparr>ReadFile := rf, Unmarshal := um\<rparr>) path = expandHome env path"
  by (simp add: expandHome_def)

lemma expandHome_unix_os:
  "expandHome unix_os (''~/'' @ ''open.json'') = Inr ''/home/u/open.json''"
  "expandHome unix_os ''/home/u/nosecret.json'' = Inr ''/home/u/nosecret.json''"
  "expandHome unix_os ''/home/u/nourl.json'' = Inr ''/home/u/nourl.json''"
  "expandHome unix_os ''~/.cyberark_api'' = Inr ''/home/u/.cyberark_api''"
  "expandHome unix_os2 ''~/.cyberark_api'' = Inr ''/home/u/.cyberark_api''"
  by (simp_all add: expandHome_def unix_os_def unix_os2_def filepath_Join_def filepath_Clean_def
      clean_loop.simps(2) backtrack.simps)

text \<open>
  The octal text determines the number: reading the digits back gives it again.
\<close>

lemma digit_char_value: "d < 10 \<Longrightarrow> of_char (digit_char d) = 48 + d"
proof -
  assume "d < 10"
  then have "d \<in> {0, 1, 2, 3, 4, 5, 6, 7, 8, 9}" by auto
  then show ?thesis by (auto simp: digit_char_def)
qed

lemma fmt_uint_value:
  "2 \<le> b \<Longrightarrow> b \<le> 10 \<Longrightarrow>
     foldl (\<lambda>a c. a * b + (of_char c - 48)) (0::nat) (fmt_uint b n) = n"
proof (induction b n rule: fmt_uint.induct)
  case (1 b n)
  show ?case
  proof (cases "n < b")
    case True
    then have "n < 10" using "1.prems" by simp
    then show ?thesis using True by (subst fmt_uint.simps) (simp add: digit_char_value)
  next
    case False
    have "n mod b < b" using "1.prems" by simp
    then have "n mod b < 10" using "1.prems" by linarith
    then show ?thesis using False "1.IH" "1.prems"
      by (subst fmt_uint.simps) (simp add: digit_char_value)
  qed
qed

lemma fmt_o_inj: "fmt_o a = fmt_o b \<Longrightarrow> a = b"
proof -
  assume "fmt_o a = fmt_o b"
  then have "foldl (\<lambda>a c. a * 8 + (of_char c - 48)) (0::nat) (fmt_uint 8 (unat a)) =
             foldl (\<lambda>a c. a * 8 + (of_char c - 48)) (0::nat) (fmt_uint 8 (unat b))"
    by (simp add: fmt_o_def)
  then have "unat a = unat b" by (simp add: fmt_uint_value)
  then show ?thesis by (simp add: word_unat_eq_iff)
qed

text \<open>
  C1. When the file that the path resolves to has permission bits other than 0600,
  loadConfig returns the permission error, whose message ends with the bits found in
  octal (and no other bits have that text); it makes no access but the one
  \<^verbatim>\<open>Stat\<close>, and the outcome is the same whatever the file contains and however its
  content would decode.
\<close>

theorem loadConfig_rejects_other_permissions:
  assumes "expandHome env path = Inr p" and "Stat env p = Inr info" and "Perm info \<noteq> 0x180"
  shows "loadConfig env path =
           ([StatCall p],
            Inl (Error (''config file must have 0600 permissions, has '' @ fmt_o (Perm info))))
         \<and> (\<forall>m. fmt_o m = fmt_o (Perm info) \<longrightarrow> m = Perm info)
         \<and> loadConfig (env\<lparr>ReadFile := rf, Unmarshal := um\<rparr>) path = loadConfig env path"
proof -
  have a: "loadConfig env path =
           ([StatCall p],
            Inl (Error (''config file must have 0600 permissions, has '' @ fmt_o (Perm info))))"
    using assms by (simp add: loadConfig_def)
  have b: "\<forall>m. fmt_o m = fmt_o (Perm info) \<longrightarrow> m = Perm info"
    using fmt_o_inj by blast
  have c: "loadConfig (env\<lparr>ReadFile := rf, Unmarshal := um\<rparr>) path = loadConfig env path"
    using assms by (simp add: loadConfig_def expandHome_content)
  from a b c show ?thesis by (intro conjI)
qed

theorem loadConfig_rejects_other_permissions_witness:
  "expandHome unix_os (''~/'' @ ''open.json'') = Inr ''/home/u/open.json''
   \<and> Stat unix_os ''/home/u/open.json'' = Inr 0x1A4
   \<and> Perm 0x1A4 \<noteq> 0x180
   \<and> loadConfig unix_os (''~/'' @ ''open.json'') =
       ([StatCall ''/home/u/open.json''],
        Inl (Error ''config file must have 0600 permissions, has 644''))"
proof -
  have h1: "expandHome unix_os (''~/'' @ ''open.json'') = Inr ''/home/u/open.json''"
    by (rule expandHome_unix_os)
  have h2: "Stat unix_os ''/home/u/open.json'' = Inr 0x1A4"
    by (simp add: unix_os_def)
  have h3: "Perm 0x1A4 \<noteq> 0x180"
    by (simp add: Perm_def)
  have h4: "fmt_o (Perm 0x1A4) = ''644''"
    by (simp add: fmt_o_def Perm_def fmt_uint.simps digit_char_def)
  show ?thesis
    using loadConfig_rejects_other_permissions [OF h1 h2 h3, THEN conjunct1] h1 h2 h3 h4
    by simp
qed

text \<open>
  C3. When the file has mode 0600, can be read and decodes to a configuration, an empty
  \<^verbatim>\<open>api_secret\<close> gives the error naming \<^verbatim>\<open>api_secret\<close>, and a non-empty
  \<^verbatim>\<open>api_secret\<close> with an empty \<^verbatim>\<open>base_url\<close> gives the error naming
  \<^verbatim>\<open>base_url\<close>. Whatever the environment, a configuration that loadConfig returns has
  both fields non-empty.
\<close>

theorem loadConfig_requires_fields:
  "(expandHome env path = Inr p \<and> Stat env p = Inr info \<and> Perm info = 0x180
      \<and> ReadFile env p = Inr data \<and> Unmarshal env data = Inr cfg \<longrightarrow>
      (APISecret cfg = [] \<longrightarrow>
         snd (loadConfig env path) = Inl (Error ''api_secret is required in config file''))
      \<and> (APISecret cfg \<noteq> [] \<and> BaseURL cfg = [] \<longrightarrow>
         snd (loadConfig env path) = Inl (Error ''base_url is required in config file'')))
   \<and> (\<forall>c. snd (loadConfig env path) = Inr c \<longrightarrow> APISecret c \<noteq> [] \<and> BaseURL c \<noteq> [])"
  by (auto simp: loadConfig_def split: sum.splits if_splits)

lemma unix_os_files:
  "Stat unix_os ''/home/u/nosecret.json'' = Inr 0x180"
  "Stat unix_os ''/home/u/nourl.json'' = Inr 0x180"
  "Stat unix_os ''/home/u/.cyberark_api'' = Inr 0x180"
  "ReadFile unix_os ''/home/u/nosecret.json'' = Inr (json2 ''username'' ''u'' ''base_url'' ''https://h/api'')"
  "ReadFile unix_os ''/home/u/nourl.json'' = Inr (json2 ''api_secret'' ''s'' ''username'' ''u'')"
  "ReadFile unix_os ''/home/u/.cyberark_api'' = Inr (json2 ''api_secret'' ''s'' ''base_url'' ''https://h/api'')"
  "Unmarshal unix_os (json2 ''username'' ''u'' ''base_url'' ''https://h/api'') =
     Inr \<lparr>APISecret = [], BaseURL = ''https://h/api'', Username = ''u'', Timeout = 0\<rparr>"
  "Unmarshal unix_os (json2 ''api_secret'' ''s'' ''username'' ''u'') =
     Inr \<lparr>APISecret = ''s'', BaseURL = [], Username = ''u'', Timeout = 0\<rparr>"
  "Unmarshal unix_os (json2 ''api_secret'' ''s'' ''base_url'' ''https://h/api'') =
     Inr \<lparr>APISecret = ''s'', BaseURL = ''https://h/api'', Username = [], Timeout = 0\<rparr>"
  by (simp_all add: unix_os_def json2_def quoted_def)

lemma Perm_0600: "Perm 0x180 = 0x180"
  by (simp add: Perm_def)

lemma loadConfig_unix_os:
  "loadConfig unix_os ''~/.cyberark_api'' =
     ([StatCall ''/home/u/.cyberark_api'', ReadFileCall ''/home/u/.cyberark_api''],
      Inr \<lparr>APISecret = ''s'', BaseURL = ''https://h/api'', Username = [], Timeout = 0\<rparr>)"
  by (simp add: loadConfig_def expandHome_unix_os unix_os_files Perm_0600)

lemma unix_os2_files:
  "Stat unix_os2 p = Stat unix_os p"
  "ReadFile unix_os2 p = ReadFile unix_os p"
  "Unmarshal unix_os2 data =
     (case Unmarshal unix_os data of
        Inl e \<Rightarrow> Inl e
      | Inr cfg \<Rightarrow> Inr (cfg\<lparr>APISecret := ''another-secret''\<rparr>))"
  by (simp_all add: unix_os2_def)

lemma loadConfig_unix_os2:
  "loadConfig unix_os2 ''~/.cyberark_api'' =
     ([StatCall ''/home/u/.cyberark_api'', ReadFileCall ''/home/u/.cyberark_api''],
      Inr \<lparr>APISecret = ''another-secret'', BaseURL = ''https://h/api'', Username = [], Timeout = 0\<rparr>)"
  by (simp add: loadConfig_def expandHome_unix_os unix_os2_files unix_os_files Perm_0600)

theorem loadConfig_requires_fields_witness:
  "snd (loadConfig unix_os ''/home/u/nosecret.json'') =
     Inl (Error ''api_secret is required in config file'')
   \<and> snd (loadConfig unix_os ''/home/u/nourl.json'') =
     Inl (Error ''base_url is required in config file'')
   \<and> snd (loadConfig unix_os ''~/.cyberark_api'') =
     Inr \<lparr>APISecret = ''s'', BaseURL = ''https://h/api'', Username = [], Timeout = 0\<rparr>
   \<and> APISecret \<lparr>APISecret = ''s'', BaseURL = ''https://h/api'', Username = [], Timeout = 0\<rparr> \<noteq> []
   \<and> BaseURL \<lparr>APISecret = ''s'', BaseURL = ''https://h/api'', Username = [], Timeout = 0\<rparr> \<noteq> []"
proof -
  have a: "snd (loadConfig unix_os ''/home/u/nosecret.json'') =
     Inl (Error ''api_secret is required in config file'')"
    using loadConfig_requires_fields [of unix_os "''/home/u/nosecret.json''" "''/home/u/nosecret.json''"
        "0x180" "json2 ''username'' ''u'' ''base_url'' ''https://h/api''"
        "\<lparr>APISecret = [], BaseURL = ''https://h/api'', Username = ''u'', Timeout = 0\<rparr>"]
    by (simp add: expandHome_unix_os unix_os_files Perm_0600)
  have b: "snd (loadConfig unix_os ''/home/u/nourl.json'') =
     Inl (Error ''base_url is required in config file'')"
    using loadConfig_requires_fields [of unix_os "''/home/u/nourl.json''" "''/home/u/nourl.json''"
        "0x180" "json2 ''api_secret'' ''s'' ''username'' ''u''"
        "\<lparr>APISecret = ''s'', BaseURL = [], Username = ''u'', Timeout = 0\<rparr>"]
    by (simp add: expandHome_unix_os unix_os_files Perm_0600)
  have c: "snd (loadConfig unix_os ''~/.cyberark_api'') =
     Inr \<lparr>APISecret = ''s'', BaseURL = ''https://h/api'', Username = [], Timeout = 0\<rparr>"
    by (simp add: loadConfig_unix_os)
  from a b c show ?thesis by simp
qed
subsection \<open>Home directory expansion\<close>

text \<open>Facts about the cleaning loop on rooted paths.\<close>

lemma backtrack_ge: "dotdot \<le> w \<Longrightarrow> dotdot \<le> backtrack buf dotdot w"
  by (induction buf dotdot w rule: backtrack.induct) (subst backtrack.simps, auto)

lemma clean_loop_rooted_hd:
  "rooted \<Longrightarrow> 1 \<le> dotdot \<Longrightarrow> out \<noteq> [] \<Longrightarrow>
     clean_loop rooted path out dotdot \<noteq> [] \<and> hd (clean_loop rooted path out dotdot) = hd out"
proof (induction rooted path out dotdot rule: clean_loop.induct)
  case (1 rooted out dotdot)
  then show ?case by simp
next
  case (2 rooted c rest out dotdot)
  have bt: "1 \<le> backtrack out dotdot (length out - 1)" if "length out > dotdot"
  proof -
    from that have "dotdot \<le> length out - 1" by simp
    from backtrack_ge [OF this, of out] "2.prems"(2) show ?thesis by simp
  qed
  show ?case
    using "2.IH" "2.prems" bt
    by (subst (1 2) clean_loop.simps(2)) (auto simp: hd_append)
qed

lemma filepath_Clean_rooted:
  "path \<noteq> [] \<Longrightarrow> hd path = CHR ''/'' \<Longrightarrow>
     filepath_Clean path \<noteq> [] \<and> hd (filepath_Clean path) = CHR ''/''"
  using clean_loop_rooted_hd [of True 1 "''/''" "tl path"] by (simp add: filepath_Clean_def)

lemma dropWhile_sep:
  "dropWhile (\<lambda>x. x \<noteq> s) (rest @ s # ys) = dropWhile (\<lambda>x. x \<noteq> s) rest @ s # ys"
  by (induction rest) auto

lemma takeWhile_sep:
  "takeWhile (\<lambda>x. x \<noteq> s) (rest @ s # ys) = takeWhile (\<lambda>x. x \<noteq> s) rest"
  by (induction rest) auto

lemma clean_loop_append:
  "rooted \<Longrightarrow> clean_loop rooted (xs @ CHR ''/'' # ys) out dotdot =
     clean_loop rooted (CHR ''/'' # ys) (clean_loop rooted xs out dotdot) dotdot"
proof (induction rooted xs out dotdot rule: clean_loop.induct)
  case (1 rooted out dotdot)
  then show ?case by simp
next
  case (2 rooted c rest out dotdot)
  let ?more = "rest @ CHR ''/'' # ys"
  show ?case
  proof (cases "c = CHR ''/''")
    case True
    have L: "clean_loop rooted (c # ?more) out dotdot = clean_loop rooted ?more out dotdot"
      using True by (simp add: clean_loop.simps(2))
    have R: "clean_loop rooted (c # rest) out dotdot = clean_loop rooted rest out dotdot"
      using True by (simp add: clean_loop.simps(2))
    show ?thesis using "2.IH"(1) [OF True "2.prems"] L R by simp
  next
    case notsep: False
    show ?thesis
    proof (cases "c = CHR ''.'' \<and> (rest = [] \<or> hd rest = CHR ''/'')")
      case True
      then have c2: "hd ?more = CHR ''/''"
        by (cases rest) auto
      have L: "clean_loop rooted (c # ?more) out dotdot = clean_loop rooted ?more out dotdot"
        using True notsep c2 by (simp add: clean_loop.simps(2) del: hd_append2)
      have R: "clean_loop rooted (c # rest) out dotdot = clean_loop rooted rest out dotdot"
        using True notsep by (simp add: clean_loop.simps(2))
      show ?thesis using "2.IH"(2) [OF notsep True "2.prems"] L R by simp
    next
      case notdot: False
      show ?thesis
      proof (cases "c = CHR ''.'' \<and> hd rest = CHR ''.'' \<and> (tl rest = [] \<or> hd (tl rest) = CHR ''/'')")
        case True
        with notdot obtain r rs where rest: "rest = r # rs" by (cases rest) auto
        have c3: "hd ?more = CHR ''.'' \<and> (tl ?more = [] \<or> hd (tl ?more) = CHR ''/'')"
          using True rest by (cases rs) auto
        have c2: "\<not> (?more = [] \<or> hd ?more = CHR ''/'')"
          using True rest by auto
        have tl_app: "tl ?more = tl rest @ CHR ''/'' # ys"
          using rest by simp
        show ?thesis
        proof (cases "length out > dotdot")
          case big: True
          let ?out = "take (backtrack out dotdot (length out - 1)) out"
          have L: "clean_loop rooted (c # ?more) out dotdot =
                     clean_loop rooted (tl rest @ CHR ''/'' # ys) ?out dotdot"
            using True notsep c2 c3 big tl_app
            by (simp add: clean_loop.simps(2) del: hd_append2 tl_append2)
          have R: "clean_loop rooted (c # rest) out dotdot = clean_loop rooted (tl rest) ?out dotdot"
            using True notsep notdot big by (simp add: clean_loop.simps(2))
          show ?thesis using "2.IH"(3) [OF notsep notdot True big "2.prems"] L R by simp
        next
          case small: False
          have L: "clean_loop rooted (c # ?more) out dotdot =
                     clean_loop rooted (tl rest @ CHR ''/'' # ys) out dotdot"
            using True notsep c2 c3 small tl_app "2.prems"
            by (simp add: clean_loop.simps(2) del: hd_append2 tl_append2)
          have R: "clean_loop rooted (c # rest) out dotdot = clean_loop rooted (tl rest) out dotdot"
            using True notsep notdot small "2.prems" by (simp add: clean_loop.simps(2))
          have nr: "\<not> \<not> rooted" using "2.prems" by simp
          show ?thesis using "2.IH"(5) [OF notsep notdot True small nr "2.prems"] L R by simp
        qed
      next
        case False
        let ?out = "(if (rooted \<and> length out \<noteq> 1) \<or> (\<not> rooted \<and> length out \<noteq> 0)
                     then out @ ''/'' else out) @ c # takeWhile (\<lambda>x. x \<noteq> CHR ''/'') rest"
        have c2: "\<not> (c = CHR ''.'' \<and> (?more = [] \<or> hd ?more = CHR ''/''))"
          using notdot by (cases rest) auto
        have c3: "\<not> (c = CHR ''.'' \<and> hd ?more = CHR ''.'' \<and>
              (tl ?more = [] \<or> hd (tl ?more) = CHR ''/''))"
        proof (cases rest)
          case Nil
          then show ?thesis by simp
        next
          case (Cons r rs)
          then show ?thesis using False by (cases rs) auto
        qed
        have L: "clean_loop rooted (c # ?more) out dotdot =
                   clean_loop rooted (dropWhile (\<lambda>x. x \<noteq> CHR ''/'') rest @ CHR ''/'' # ys) ?out dotdot"
          by (simp only: clean_loop.simps(2) notsep c2 c3 if_False dropWhile_sep takeWhile_sep)
        have R: "clean_loop rooted (c # rest) out dotdot =
                   clean_loop rooted (dropWhile (\<lambda>x. x \<noteq> CHR ''/'') rest) ?out dotdot"
          by (simp only: clean_loop.simps(2) notsep notdot False if_False)
        show ?thesis using "2.IH"(6) [OF notsep notdot False "2.prems"] L R by simp
      qed
    qed
  qed
qed

lemma clean_loop_name:
  assumes "name \<noteq> []" and "CHR ''/'' \<notin> set name" and "name \<noteq> ''.''" and "name \<noteq> ''..''"
  shows "clean_loop True name out dotdot = (if length out \<noteq> 1 then out @ ''/'' else out) @ name"
proof -
  from assms(1) obtain c rest where name: "name = c # rest" by (cases name) auto
  have notsep: "c \<noteq> CHR ''/''" and rest: "CHR ''/'' \<notin> set rest"
    using assms(2) name by auto
  have notdot: "\<not> (c = CHR ''.'' \<and> (rest = [] \<or> hd rest = CHR ''/''))"
    using assms(3) name rest by (cases rest) auto
  have notdotdot: "\<not> (c = CHR ''.'' \<and> hd rest = CHR ''.'' \<and> (tl rest = [] \<or> hd (tl rest) = CHR ''/''))"
  proof (cases rest)
    case Nil
    then show ?thesis using notdot by simp
  next
    case (Cons r rs)
    then show ?thesis using assms(4) name rest by (cases rs) auto
  qed
  have tw: "takeWhile (\<lambda>x. x \<noteq> CHR ''/'') rest = rest"
    using rest by (induction rest) auto
  have dw: "dropWhile (\<lambda>x. x \<noteq> CHR ''/'') rest = []"
    using rest by (induction rest) auto
  show ?thesis
    unfolding name
    by (simp only: clean_loop.simps(2) notsep notdot notdotdot if_False tw dw clean_loop.simps(1))
      simp
qed

lemma filepath_Clean_home_name:
  assumes "hd home = CHR ''/''" and "filepath_Clean home = home" and "home \<noteq> ''/''"
    and "name \<noteq> []" and "CHR ''/'' \<notin> set name" and "name \<noteq> ''.''" and "name \<noteq> ''..''"
  shows "filepath_Clean (home @ ''/'' @ ''/'' @ name) = home @ ''/'' @ name"
proof -
  from assms(1,2) obtain t where home: "home = CHR ''/'' # t"
    by (cases home) (auto simp: filepath_Clean_def)
  have h: "clean_loop True t ''/'' 1 = home"
    using assms(2) home by (simp add: filepath_Clean_def)
  have len: "length home \<noteq> 1"
    using assms(3) home by auto
  have "filepath_Clean (home @ ''/'' @ ''/'' @ name) =
          clean_loop True (t @ CHR ''/'' # CHR ''/'' # name) ''/'' 1"
    using home by (simp add: filepath_Clean_def)
  also have "\<dots> = clean_loop True (CHR ''/'' # CHR ''/'' # name) home 1"
    using clean_loop_append [of True t "CHR ''/'' # name" "''/''" 1] h by simp
  also have "\<dots> = clean_loop True name home 1"
    by (simp add: clean_loop.simps(2))
  also have "\<dots> = home @ ''/'' @ name"
    using len clean_loop_name [OF assms(4-7), of home 1] by simp
  finally show ?thesis .
qed

lemma loadConfig_cong:
  "expandHome env a = expandHome env b \<Longrightarrow> loadConfig env a = loadConfig env b"
  by (simp add: loadConfig_def)

lemma loadConfig_accesses:
  "expandHome env path = Inr p \<Longrightarrow>
     set (fst (loadConfig env path)) \<subseteq> {StatCall p, ReadFileCall p}"
  by (auto simp: loadConfig_def split: sum.splits if_splits)

text \<open>
  C8, as the code has it. The path after the tilde is joined to the home directory with
  \<^verbatim>\<open>filepath.Join\<close>, which cleans the result lexically: the tilde path resolves to
  \<^verbatim>\<open>Clean(home + "/" + s)\<close>, and no other path is ever accessed. For an absolute
  home directory, loadConfig on the tilde path makes the same file accesses and returns
  the same as loadConfig on that cleaned path. For a clean home directory other than the
  root and a plain file name, loading \<^verbatim>\<open>~/name\<close> is loading \<^verbatim>\<open>home/name\<close>.
\<close>

theorem tilde_resolves_to_cleaned_path:
  assumes "UserHomeDir env = Inr home" and "home \<noteq> []"
  shows "expandHome env (CHR ''~'' # s) = Inr (filepath_Clean (home @ ''/'' @ s))
         \<and> set (fst (loadConfig env (CHR ''~'' # s))) \<subseteq>
             {StatCall (filepath_Clean (home @ ''/'' @ s)),
              ReadFileCall (filepath_Clean (home @ ''/'' @ s))}
         \<and> (hd home = CHR ''/'' \<longrightarrow>
              loadConfig env (CHR ''~'' # s) = loadConfig env (filepath_Clean (home @ ''/'' @ s))
              \<and> (filepath_Clean home = home \<and> home \<noteq> ''/'' \<and> name \<noteq> []
                   \<and> CHR ''/'' \<notin> set name \<and> name \<noteq> ''.'' \<and> name \<noteq> ''..'' \<longrightarrow>
                   loadConfig env (''~/'' @ name) = loadConfig env (home @ ''/'' @ name)))"
proof -
  have e: "expandHome env (CHR ''~'' # s) = Inr (filepath_Clean (home @ ''/'' @ s))" for s
    using assms by (simp add: expandHome_def filepath_Join_def)
  have a: "set (fst (loadConfig env (CHR ''~'' # s))) \<subseteq>
             {StatCall (filepath_Clean (home @ ''/'' @ s)),
              ReadFileCall (filepath_Clean (home @ ''/'' @ s))}"
    by (rule loadConfig_accesses [OF e])
  have r: "expandHome env p = Inr p" if "p \<noteq> []" "hd p = CHR ''/''" for p
    using that by (cases p) (auto simp: expandHome_def)
  have c: "filepath_Clean (home @ ''/'' @ s) \<noteq> []
           \<and> hd (filepath_Clean (home @ ''/'' @ s)) = CHR ''/''"
    if "hd home = CHR ''/''" for s
    using filepath_Clean_rooted [of "home @ ''/'' @ s"] assms that by simp
  have l: "loadConfig env (CHR ''~'' # s) = loadConfig env (filepath_Clean (home @ ''/'' @ s))"
    if "hd home = CHR ''/''" for s
    using e [of s] r c [OF that, of s] by (intro loadConfig_cong) simp
  have n: "loadConfig env (''~/'' @ name) = loadConfig env (home @ ''/'' @ name)"
    if "hd home = CHR ''/''" "filepath_Clean home = home" "home \<noteq> ''/''" "name \<noteq> []"
      "CHR ''/'' \<notin> set name" "name \<noteq> ''.''" "name \<noteq> ''..''"
    using l [OF that(1), of "''/'' @ name"] filepath_Clean_home_name [OF that] by simp
  from e a l n show ?thesis by blast
qed

theorem tilde_resolves_to_cleaned_path_witness:
  "UserHomeDir unix_os = Inr ''/home/u'' \<and> ''/home/u'' \<noteq> [] \<and> hd ''/home/u'' = CHR ''/''
   \<and> filepath_Clean ''/home/u'' = ''/home/u'' \<and> ''/home/u'' \<noteq> ''/'' \<and> ''.x'' \<noteq> []
   \<and> CHR ''/'' \<notin> set ''.x'' \<and> ''.x'' \<noteq> ''.'' \<and> ''.x'' \<noteq> ''..''
   \<and> expandHome unix_os (CHR ''~'' # ''/a/../.x'') = Inr ''/home/u/.x''
   \<and> loadConfig unix_os (CHR ''~'' # ''/a/../.x'') = loadConfig unix_os ''/home/u/.x''
   \<and> loadConfig unix_os ''~/.x'' = loadConfig unix_os ''/home/u/.x''"
proof -
  have h1: "UserHomeDir unix_os = Inr ''/home/u''"
    by (simp add: unix_os_def)
  have h2: "''/home/u'' \<noteq> []" and h3: "hd ''/home/u'' = CHR ''/''"
    by simp_all
  have c1: "filepath_Clean ''/home/u'' = ''/home/u''"
    by (simp add: filepath_Clean_def clean_loop.simps(2) backtrack.simps)
  have c2: "filepath_Clean (''/home/u'' @ ''/'' @ ''/a/../.x'') = ''/home/u/.x''"
    by (simp add: filepath_Clean_def clean_loop.simps(2) backtrack.simps)
  show ?thesis
    using tilde_resolves_to_cleaned_path [OF h1 h2, of "''/a/../.x''" "''.x''"] h1 c1 c2
    by simp
qed

text \<open>
  C8 as stated fails when \<^verbatim>\<open>home + "/" + s\<close> is not clean: with the suffix
  \<^verbatim>\<open>/a/../.x\<close> the tilde path resolves to \<^verbatim>\<open>/home/u/.x\<close>, which exists, while the
  path \<^verbatim>\<open>/home/u//a/../.x\<close> is given to the system as it is and does not exist, there
  being no directory \<^verbatim>\<open>a\<close>.
\<close>

theorem tilde_path_counterexample:
  "UserHomeDir unix_os = Inr ''/home/u''
   \<and> fst (loadConfig unix_os (''~'' @ ''/a/../.x'')) =
       [StatCall ''/home/u/.x'', ReadFileCall ''/home/u/.x'']
   \<and> fst (loadConfig unix_os (''/home/u'' @ ''/'' @ ''/a/../.x'')) =
       [StatCall ''/home/u//a/../.x'']
   \<and> snd (loadConfig unix_os (''~'' @ ''/a/../.x'')) =
       Inr \<lparr>APISecret = ''s'', BaseURL = ''https://h/api'', Username = [], Timeout = 0\<rparr>
   \<and> snd (loadConfig unix_os (''/home/u'' @ ''/'' @ ''/a/../.x'')) =
       Inl (Error ''failed to stat config file: stat /home/u//a/../.x: no such file or directory'')"
proof -
  have e1: "expandHome unix_os ''~/a/../.x'' = Inr ''/home/u/.x''"
    by (simp add: expandHome_def unix_os_def filepath_Join_def filepath_Clean_def
        clean_loop.simps(2) backtrack.simps)
  have e2: "expandHome unix_os ''/home/u//a/../.x'' = Inr ''/home/u//a/../.x''"
    by (simp add: expandHome_def)
  have f: "Stat unix_os ''/home/u/.x'' = Inr 0x180"
    "ReadFile unix_os ''/home/u/.x'' = Inr (json2 ''api_secret'' ''s'' ''base_url'' ''https://h/api'')"
    "Unmarshal unix_os (json2 ''api_secret'' ''s'' ''base_url'' ''https://h/api'') =
       Inr \<lparr>APISecret = ''s'', BaseURL = ''https://h/api'', Username = [], Timeout = 0\<rparr>"
    "Stat unix_os ''/home/u//a/../.x'' =
       Inl (Error ''stat /home/u//a/../.x: no such file or directory'')"
    "UserHomeDir unix_os = Inr ''/home/u''"
    by (simp_all add: unix_os_def json2_def quoted_def)
  have p: "Perm 0x180 = 0x180" by (simp add: Perm_def)
  show ?thesis
    using e1 e2 by (simp add: loadConfig_def f p Errorf_w_def)
qed


section \<open>The HTTP client\<close>

lemma Header_Set_twice:
  "Header_Set (Header_Set \<lparr>Method = m, URL = u, Header = Map.empty, Body = b\<rparr> k1 v1) k2 v2 =
     \<lparr>Method = m, URL = u, Header = [k1 \<mapsto> [v1], k2 \<mapsto> [v2]], Body = b\<rparr>"
  by (simp add: Header_Set_def)

lemma Get_requests:
  "fst (Get env c endpoint) =
     (case url_Parse env (BaseURL (config c) @ ''/'' @ endpoint) of
        Inl e \<Rightarrow> []
      | Inr u \<Rightarrow>
          [\<lparr>Method = ''GET'', URL = u,
            Header = [''Authorization'' \<mapsto> [APISecret (config c)],
                    ''Content-Type'' \<mapsto> [''application/json'']],
            Body = None\<rparr>])"
  by (auto simp: Get_def http_NewRequest_def Header_Set_twice Let_def
      split: option.splits sum.splits prod.splits)

lemma Post_requests:
  "fst (Post env c endpoint payload) =
     (case Marshal env payload of
       Inl e \<Rightarrow> []
     | Inr jsonData \<Rightarrow>
       (case url_Parse env (BaseURL (config c) @ ''/'' @ endpoint) of
        Inl e \<Rightarrow> []
      | Inr u \<Rightarrow>
          [\<lparr>Method = ''POST'', URL = u,
            Header = [''Authorization'' \<mapsto> [APISecret (config c)],
                    ''Content-Type'' \<mapsto> [''application/json'']],
            Body = Some jsonData\<rparr>]))"
  by (auto simp: Post_def http_NewRequest_def Header_Set_twice Let_def
      split: option.splits sum.splits prod.splits)

lemma Put_requests:
  "fst (Put env c endpoint payload) =
     (case Marshal env payload of
       Inl e \<Rightarrow> []
     | Inr jsonData \<Rightarrow>
       (case url_Parse env (BaseURL (config c) @ ''/'' @ endpoint) of
        Inl e \<Rightarrow> []
      | Inr u \<Rightarrow>
          [\<lparr>Method = ''PUT'', URL = u,
            Header = [''Authorization'' \<mapsto> [APISecret (config c)],
                    ''Content-Type'' \<mapsto> [''application/json'']],
            Body = Some jsonData\<rparr>]))"
  by (auto simp: Put_def http_NewRequest_def Header_Set_twice Let_def
      split: option.splits sum.splits prod.splits)

lemma Delete_requests:
  "fst (Delete env c endpoint) =
     (case url_Parse env (BaseURL (config c) @ ''/'' @ endpoint) of
        Inl e \<Rightarrow> []
      | Inr u \<Rightarrow>
          [\<lparr>Method = ''DELETE'', URL = u,
            Header = [''Authorization'' \<mapsto> [APISecret (config c)],
                    ''Content-Type'' \<mapsto> [''application/json'']],
            Body = None\<rparr>])"
  by (auto simp: Delete_def http_NewRequest_def Header_Set_twice Let_def
      split: option.splits sum.splits prod.splits)

text \<open>
  C4. For every configuration and endpoint, the URL string that an operation builds and
  hands to \<^verbatim>\<open>http.NewRequest\<close> is the base URL, one slash and the endpoint, unchanged.
  The only request it sends holds what the library parsed from exactly this string, and
  its headers are exactly \<^verbatim>\<open>Authorization\<close>, holding the API secret as it is, and
  \<^verbatim>\<open>Content-Type\<close>, holding \<^verbatim>\<open>application/json\<close>. It is sent unless the library
  rejects the string (or, for Post and Put, the payload cannot be marshalled).
\<close>

theorem client_requests:
  "fst (Get env c endpoint) =
     (case url_Parse env (BaseURL (config c) @ ''/'' @ endpoint) of
        Inl e \<Rightarrow> []
      | Inr u \<Rightarrow>
          [\<lparr>Method = ''GET'', URL = u,
            Header = [''Authorization'' \<mapsto> [APISecret (config c)],
                    ''Content-Type'' \<mapsto> [''application/json'']],
            Body = None\<rparr>])
   \<and> fst (Post env c endpoint payload) =
     (case Marshal env payload of
       Inl e \<Rightarrow> []
     | Inr jsonData \<Rightarrow>
       (case url_Parse env (BaseURL (config c) @ ''/'' @ endpoint) of
        Inl e \<Rightarrow> []
      | Inr u \<Rightarrow>
          [\<lparr>Method = ''POST'', URL = u,
            Header = [''Authorization'' \<mapsto> [APISecret (config c)],
                    ''Content-Type'' \<mapsto> [''application/json'']],
            Body = Some jsonData\<rparr>]))
   \<and> fst (Put env c endpoint payload) =
     (case Marshal env payload of
       Inl e \<Rightarrow> []
     | Inr jsonData \<Rightarrow>
       (case url_Parse env (BaseURL (config c) @ ''/'' @ endpoint) of
        Inl e \<Rightarrow> []
      | Inr u \<Rightarrow>
          [\<lparr>Method = ''PUT'', URL = u,
            Header = [''Authorization'' \<mapsto> [APISecret (config c)],
                    ''Content-Type'' \<mapsto> [''application/json'']],
            Body = Some jsonData\<rparr>]))
   \<and> fst (Delete env c endpoint) =
     (case url_Parse env (BaseURL (config c) @ ''/'' @ endpoint) of
        Inl e \<Rightarrow> []
      | Inr u \<Rightarrow>
          [\<lparr>Method = ''DELETE'', URL = u,
            Header = [''Authorization'' \<mapsto> [APISecret (config c)],
                    ''Content-Type'' \<mapsto> [''application/json'']],
            Body = None\<rparr>])"
  using Get_requests [of env c endpoint] Post_requests [of env c endpoint payload]
    Put_requests [of env c endpoint payload] Delete_requests [of env c endpoint]
  by (intro conjI)

lemma fmt_d_examples: "fmt_d 404 = ''404''" "fmt_d 204 = ''204''" "fmt_d 500 = ''500''"
  by (simp_all add: fmt_d_def fmt_uint.simps digit_char_def)

lemma test_server_parse:
  "url_Parse test_server ''https://h/api/missing'' = Inr ''https://h/api/missing''"
  "url_Parse test_server ''https://h/api/ok'' = Inr ''https://h/api/ok''"
  "url_Parse test_server ''https://h/api/a b'' = Inr ''https://h/api/a%20b''"
  "url_Parse broken_server s = url_Parse test_server s"
  "Marshal test_server ''p'' = Inr (quoted ''p'')"
  "Marshal broken_server ''p'' = Inr (quoted ''p'')"
  by (simp_all add: test_server_def broken_server_def test_url_Parse_def)

lemma test_client_config:
  "config test_client =
     \<lparr>APISecret = ''s'', BaseURL = ''https://h/api'', Username = [], Timeout = 0\<rparr>"
  by (simp add: test_client_def NewAPIClient_def)

theorem client_requests_witness:
  "fst (Get test_server test_client ''missing'') =
     [\<lparr>Method = ''GET'', URL = ''https://h/api/missing'',
       Header = [''Authorization'' \<mapsto> [''s''], ''Content-Type'' \<mapsto> [''application/json'']],
       Body = None\<rparr>]
   \<and> fst (Post test_server test_client ''a b'' ''p'') =
     [\<lparr>Method = ''POST'', URL = ''https://h/api/a%20b'',
       Header = [''Authorization'' \<mapsto> [''s''], ''Content-Type'' \<mapsto> [''application/json'']],
       Body = Some (quoted ''p'')\<rparr>]
   \<and> fst (Put test_server test_client ''a b'' ''p'') =
     [\<lparr>Method = ''PUT'', URL = ''https://h/api/a%20b'',
       Header = [''Authorization'' \<mapsto> [''s''], ''Content-Type'' \<mapsto> [''application/json'']],
       Body = Some (quoted ''p'')\<rparr>]
   \<and> fst (Delete test_server test_client ''missing'') =
     [\<lparr>Method = ''DELETE'', URL = ''https://h/api/missing'',
       Header = [''Authorization'' \<mapsto> [''s''], ''Content-Type'' \<mapsto> [''application/json'']],
       Body = None\<rparr>]"
  using client_requests [of test_server test_client "''missing''" "''p''"]
    client_requests [of test_server test_client "''a b''" "''p''"]
  by (simp add: test_server_parse test_client_config)

lemma Get_status:
  "fst (Get env c endpoint) = [req] \<and> Do env (httpClient c) req = Inr resp \<longrightarrow>
      snd (Get env c endpoint) =
        (case ReadAll resp of
           (body, Some e) \<Rightarrow> Inl (Error (''failed to read response: '' @ msg e))
         | (body, None) \<Rightarrow>
             if 200 \<le> StatusCode resp \<and> StatusCode resp < 300 then Inr body
             else Inl (Error (''API error (status '' @ fmt_d (StatusCode resp) @ ''): ''
                               @ body)))"
  by (auto simp: Get_def Let_def api_error_def Errorf_w_def
      split: sum.splits option.splits prod.splits)

lemma Post_status:
  "fst (Post env c endpoint payload) = [req] \<and> Do env (httpClient c) req = Inr resp \<longrightarrow>
      snd (Post env c endpoint payload) =
        (case ReadAll resp of
           (body, Some e) \<Rightarrow> Inl (Error (''failed to read response: '' @ msg e))
         | (body, None) \<Rightarrow>
             if 200 \<le> StatusCode resp \<and> StatusCode resp < 300 then Inr body
             else Inl (Error (''API error (status '' @ fmt_d (StatusCode resp) @ ''): ''
                               @ body)))"
  by (auto simp: Post_def Let_def api_error_def Errorf_w_def
      split: sum.splits option.splits prod.splits)

lemma Put_status:
  "fst (Put env c endpoint payload) = [req] \<and> Do env (httpClient c) req = Inr resp \<longrightarrow>
      snd (Put env c endpoint payload) =
        (case ReadAll resp of
           (body, Some e) \<Rightarrow> Inl (Error (''failed to read response: '' @ msg e))
         | (body, None) \<Rightarrow>
             if 200 \<le> StatusCode resp \<and> StatusCode resp < 300 then Inr body
             else Inl (Error (''API error (status '' @ fmt_d (StatusCode resp) @ ''): ''
                               @ body)))"
  by (auto simp: Put_def Let_def api_error_def Errorf_w_def
      split: sum.splits option.splits prod.splits)

lemma Delete_status:
  "fst (Delete env c endpoint) = [req] \<and> Do env (httpClient c) req = Inr resp \<longrightarrow>
      snd (Delete env c endpoint) =
        (if 200 \<le> StatusCode resp \<and> StatusCode resp < 300 then None
         else Some (Error (''API error (status '' @ fmt_d (StatusCode resp) @ ''): ''
                            @ fst (ReadAll resp))))"
  by (auto simp: Delete_def Let_def api_error_def Errorf_w_def
      split: sum.splits option.splits prod.splits)

lemma digit_char_not_minus: "d < 10 \<Longrightarrow> digit_char d \<noteq> CHR ''-''"
proof
  assume d: "d < 10" and "digit_char d = CHR ''-''"
  then have "(of_char (digit_char d) :: nat) = of_char CHR ''-''" by simp
  then show False using digit_char_value [OF d] by simp
qed

lemma fmt_uint_hd:
  "2 \<le> b \<Longrightarrow> b \<le> 10 \<Longrightarrow> fmt_uint b n \<noteq> [] \<and> hd (fmt_uint b n) \<noteq> CHR ''-''"
proof (induction b n rule: fmt_uint.induct)
  case (1 b n)
  show ?case
  proof (cases "n < b")
    case True
    then have "n < 10" using "1.prems" by simp
    then show ?thesis using True by (subst (1 2) fmt_uint.simps) (simp add: digit_char_not_minus)
  next
    case False
    then show ?thesis using "1.IH" "1.prems"
      by (subst (1 2) fmt_uint.simps) (simp add: hd_append)
  qed
qed

lemma fmt_uint_inj: "fmt_uint 10 m = fmt_uint 10 n \<Longrightarrow> m = n"
proof -
  assume "fmt_uint 10 m = fmt_uint 10 n"
  then have "foldl (\<lambda>a c. a * 10 + (of_char c - 48)) (0::nat) (fmt_uint 10 m) =
             foldl (\<lambda>a c. a * 10 + (of_char c - 48)) (0::nat) (fmt_uint 10 n)"
    by simp
  then show ?thesis by (simp add: fmt_uint_value)
qed

lemma fmt_d_inj: "fmt_d i = fmt_d j \<Longrightarrow> i = j"
proof -
  assume eq: "fmt_d i = fmt_d j"
  have nm: "fmt_uint 10 n \<noteq> CHR ''-'' # xs" for n xs
    using fmt_uint_hd [of 10 n] by (cases "fmt_uint 10 n") auto
  show ?thesis
  proof (cases "i < 0")
    case True
    show ?thesis
    proof (cases "j < 0")
      case jn: True
      with True eq have "fmt_uint 10 (nat (- i)) = fmt_uint 10 (nat (- j))"
        by (simp add: fmt_d_def)
      then have "nat (- i) = nat (- j)" by (rule fmt_uint_inj)
      with True jn show ?thesis by simp
    next
      case False
      with True eq nm [of "nat j" "fmt_uint 10 (nat (- i))"] show ?thesis
        by (simp add: fmt_d_def)
    qed
  next
    case False
    show ?thesis
    proof (cases "j < 0")
      case True
      with False eq nm [of "nat i" "fmt_uint 10 (nat (- j))"] show ?thesis
        by (simp add: fmt_d_def)
    next
      case jp: False
      with False eq have "fmt_uint 10 (nat i) = fmt_uint 10 (nat j)"
        by (simp add: fmt_d_def)
      then have "nat i = nat j" by (rule fmt_uint_inj)
      with False jp show ?thesis by simp
    qed
  qed
qed

text \<open>
  C2, as the code has it. When an operation has sent its request and the transport has
  answered with a response, Get, Post and Put first read the body: if the read fails they
  return the error \<^verbatim>\<open>failed to read response\<close>, whatever the status; if it succeeds
  they return the body exactly when the status is at least 200 and below 300, and
  otherwise the error \<^verbatim>\<open>API error (status <code>): <body>\<close>. Delete returns no error
  exactly when the status is in that range, and otherwise the same error text, built from
  the body as far as it could be read. The code is written in decimal, and different
  codes are written differently.
\<close>

theorem client_status_check:
  "(fst (Get env c endpoint) = [req] \<and> Do env (httpClient c) req = Inr resp \<longrightarrow>
      snd (Get env c endpoint) =
        (case ReadAll resp of
           (body, Some e) \<Rightarrow> Inl (Error (''failed to read response: '' @ msg e))
         | (body, None) \<Rightarrow>
             if 200 \<le> StatusCode resp \<and> StatusCode resp < 300 then Inr body
             else Inl (Error (''API error (status '' @ fmt_d (StatusCode resp) @ ''): ''
                               @ body))))
   \<and> (fst (Post env c endpoint payload) = [req] \<and> Do env (httpClient c) req = Inr resp \<longrightarrow>
      snd (Post env c endpoint payload) =
        (case ReadAll resp of
           (body, Some e) \<Rightarrow> Inl (Error (''failed to read response: '' @ msg e))
         | (body, None) \<Rightarrow>
             if 200 \<le> StatusCode resp \<and> StatusCode resp < 300 then Inr body
             else Inl (Error (''API error (status '' @ fmt_d (StatusCode resp) @ ''): ''
                               @ body))))
   \<and> (fst (Put env c endpoint payload) = [req] \<and> Do env (httpClient c) req = Inr resp \<longrightarrow>
      snd (Put env c endpoint payload) =
        (case ReadAll resp of
           (body, Some e) \<Rightarrow> Inl (Error (''failed to read response: '' @ msg e))
         | (body, None) \<Rightarrow>
             if 200 \<le> StatusCode resp \<and> StatusCode resp < 300 then Inr body
             else Inl (Error (''API error (status '' @ fmt_d (StatusCode resp) @ ''): ''
                               @ body))))
   \<and> (fst (Delete env c endpoint) = [req] \<and> Do env (httpClient c) req = Inr resp \<longrightarrow>
      snd (Delete env c endpoint) =
        (if 200 \<le> StatusCode resp \<and> StatusCode resp < 300 then None
         else Some (Error (''API error (status '' @ fmt_d (StatusCode resp) @ ''): ''
                            @ fst (ReadAll resp)))))
   \<and> (\<forall>i. fmt_d i = fmt_d (StatusCode resp) \<longrightarrow> i = StatusCode resp)"
  using Get_status [of env c endpoint req resp]
    Post_status [of env c endpoint payload req resp]
    Put_status [of env c endpoint payload req resp]
    Delete_status [of env c endpoint req resp] fmt_d_inj
  by blast

lemma test_requests:
  "fst (Get srv test_client ep) =
     (case url_Parse srv (''https://h/api/'' @ ep) of Inl e \<Rightarrow> []
      | Inr u \<Rightarrow> [\<lparr>Method = ''GET'', URL = u, Header = [''Authorization'' \<mapsto> [''s''], ''Content-Type'' \<mapsto> [''application/json'']], Body = None\<rparr>])"
  "Marshal srv p = Inr j \<Longrightarrow> fst (Post srv test_client ep p) =
     (case url_Parse srv (''https://h/api/'' @ ep) of Inl e \<Rightarrow> []
      | Inr u \<Rightarrow> [\<lparr>Method = ''POST'', URL = u, Header = [''Authorization'' \<mapsto> [''s''], ''Content-Type'' \<mapsto> [''application/json'']], Body = Some j\<rparr>])"
  "Marshal srv p = Inr j \<Longrightarrow> fst (Put srv test_client ep p) =
     (case url_Parse srv (''https://h/api/'' @ ep) of Inl e \<Rightarrow> []
      | Inr u \<Rightarrow> [\<lparr>Method = ''PUT'', URL = u, Header = [''Authorization'' \<mapsto> [''s''], ''Content-Type'' \<mapsto> [''application/json'']], Body = Some j\<rparr>])"
  "fst (Delete srv test_client ep) =
     (case url_Parse srv (''https://h/api/'' @ ep) of Inl e \<Rightarrow> []
      | Inr u \<Rightarrow> [\<lparr>Method = ''DELETE'', URL = u, Header = [''Authorization'' \<mapsto> [''s''], ''Content-Type'' \<mapsto> [''application/json'']], Body = None\<rparr>])"
  by (simp_all add: Get_requests Post_requests Put_requests Delete_requests test_client_config
      split: sum.splits)

lemma test_server_Do:
  "Do test_server t \<lparr>Method = m, URL = ''https://h/api/missing'', Header = h, Body = b\<rparr> =
     Inr \<lparr>StatusCode = 404, ReadAll = (''not found'', None)\<rparr>"
  "Do test_server t \<lparr>Method = m, URL = ''https://h/api/ok'', Header = h, Body = b\<rparr> =
     Inr \<lparr>StatusCode = 204, ReadAll = ([], None)\<rparr>"
  "Do broken_server t \<lparr>Method = m, URL = ''https://h/api/ok'', Header = h, Body = b\<rparr> =
     Inr \<lparr>StatusCode = 200, ReadAll = ([], Some (Error ''unexpected EOF''))\<rparr>"
  "Do broken_server t \<lparr>Method = m, URL = ''https://h/api/missing'', Header = h, Body = b\<rparr> =
     Inr \<lparr>StatusCode = 500, ReadAll = (''int'', Some (Error ''unexpected EOF''))\<rparr>"
  by (simp_all add: test_server_def broken_server_def)

theorem client_status_check_witness:
  "snd (Get test_server test_client ''missing'') = Inl (Error ''API error (status 404): not found'')
   \<and> snd (Post test_server test_client ''missing'' ''p'') =
       Inl (Error ''API error (status 404): not found'')
   \<and> snd (Put test_server test_client ''missing'' ''p'') =
       Inl (Error ''API error (status 404): not found'')
   \<and> snd (Delete test_server test_client ''missing'') =
       Some (Error ''API error (status 404): not found'')
   \<and> snd (Get test_server test_client ''ok'') = Inr []
   \<and> snd (Post test_server test_client ''ok'' ''p'') = Inr []
   \<and> snd (Put test_server test_client ''ok'' ''p'') = Inr []
   \<and> snd (Delete test_server test_client ''ok'') = None
   \<and> snd (Get broken_server test_client ''ok'') =
       Inl (Error ''failed to read response: unexpected EOF'')
   \<and> snd (Delete broken_server test_client ''missing'') =
       Some (Error ''API error (status 500): int'')"
proof -
  let ?hdr = "[''Authorization'' \<mapsto> [''s''], ''Content-Type'' \<mapsto> [''application/json'']]"
  let ?r404 = "\<lparr>StatusCode = 404, ReadAll = (''not found'', None)\<rparr>"
  let ?r204 = "\<lparr>StatusCode = 204, ReadAll = ([], None)\<rparr>"
  let ?r200 = "\<lparr>StatusCode = 200, ReadAll = ([], Some (Error ''unexpected EOF''))\<rparr>"
  let ?r500 = "\<lparr>StatusCode = 500, ReadAll = (''int'', Some (Error ''unexpected EOF''))\<rparr>"
  note ev = test_requests test_server_parse test_server_Do fmt_d_examples
  have get_missing: "snd (Get test_server test_client ''missing'') = Inl (Error ''API error (status 404): not found'')"
    using client_status_check
      [where env = test_server and c = test_client and endpoint = "''missing''"
         and req = "\<lparr>Method = ''GET'', URL = ''https://h/api/missing'', Header = ?hdr, Body = None\<rparr>" and resp = "?r404", THEN conjunct1]
    by (simp add: ev)
  have post_missing: "snd (Post test_server test_client ''missing'' ''p'') = Inl (Error ''API error (status 404): not found'')"
    using client_status_check
      [where env = test_server and c = test_client and endpoint = "''missing''" and payload = "''p''"
         and req = "\<lparr>Method = ''POST'', URL = ''https://h/api/missing'', Header = ?hdr, Body = Some (quoted ''p'')\<rparr>" and resp = "?r404", THEN conjunct2, THEN conjunct1]
    by (simp add: ev)
  have put_missing: "snd (Put test_server test_client ''missing'' ''p'') = Inl (Error ''API error (status 404): not found'')"
    using client_status_check
      [where env = test_server and c = test_client and endpoint = "''missing''" and payload = "''p''"
         and req = "\<lparr>Method = ''PUT'', URL = ''https://h/api/missing'', Header = ?hdr, Body = Some (quoted ''p'')\<rparr>" and resp = "?r404", THEN conjunct2, THEN conjunct2, THEN conjunct1]
    by (simp add: ev)
  have delete_missing: "snd (Delete test_server test_client ''missing'') = Some (Error ''API error (status 404): not found'')"
    using client_status_check
      [where env = test_server and c = test_client and endpoint = "''missing''"
         and req = "\<lparr>Method = ''DELETE'', URL = ''https://h/api/missing'', Header = ?hdr, Body = None\<rparr>" and resp = "?r404", THEN conjunct2, THEN conjunct2, THEN conjunct2, THEN conjunct1]
    by (simp add: ev)
  have get_ok: "snd (Get test_server test_client ''ok'') = Inr []"
    using client_status_check
      [where env = test_server and c = test_client and endpoint = "''ok''"
         and req = "\<lparr>Method = ''GET'', URL = ''https://h/api/ok'', Header = ?hdr, Body = None\<rparr>" and resp = "?r204", THEN conjunct1]
    by (simp add: ev)
  have post_ok: "snd (Post test_server test_client ''ok'' ''p'') = Inr []"
    using client_status_check
      [where env = test_server and c = test_client and endpoint = "''ok''" and payload = "''p''"
         and req = "\<lparr>Method = ''POST'', URL = ''https://h/api/ok'', Header = ?hdr, Body = Some (quoted ''p'')\<rparr>" and resp = "?r204", THEN conjunct2, THEN conjunct1]
    by (simp add: ev)
  have put_ok: "snd (Put test_server test_client ''ok'' ''p'') = Inr []"
    using client_status_check
      [where env = test_server and c = test_client and endpoint = "''ok''" and payload = "''p''"
         and req = "\<lparr>Method = ''PUT'', URL = ''https://h/api/ok'', Header = ?hdr, Body = Some (quoted ''p'')\<rparr>" and resp = "?r204", THEN conjunct2, THEN conjunct2, THEN conjunct1]
    by (simp add: ev)
  have delete_ok: "snd (Delete test_server test_client ''ok'') = None"
    using client_status_check
      [where env = test_server and c = test_client and endpoint = "''ok''"
         and req = "\<lparr>Method = ''DELETE'', URL = ''https://h/api/ok'', Header = ?hdr, Body = None\<rparr>" and resp = "?r204", THEN conjunct2, THEN conjunct2, THEN conjunct2, THEN conjunct1]
    by (simp add: ev)
  have get_broken: "snd (Get broken_server test_client ''ok'') =
      Inl (Error ''failed to read response: unexpected EOF'')"
    using client_status_check
      [where env = broken_server and c = test_client and endpoint = "''ok''"
         and req = "\<lparr>Method = ''GET'', URL = ''https://h/api/ok'', Header = ?hdr, Body = None\<rparr>" and resp = "?r200", THEN conjunct1]
    by (simp add: ev)
  have delete_broken: "snd (Delete broken_server test_client ''missing'') =
      Some (Error ''API error (status 500): int'')"
    using client_status_check
      [where env = broken_server and c = test_client and endpoint = "''missing''"
         and req = "\<lparr>Method = ''DELETE'', URL = ''https://h/api/missing'', Header = ?hdr, Body = None\<rparr>" and resp = "?r500", THEN conjunct2, THEN conjunct2, THEN conjunct2, THEN conjunct1]
    by (simp add: ev)
  from get_missing post_missing put_missing delete_missing get_ok post_ok put_ok delete_ok get_broken delete_broken
  show ?thesis by (intro conjI)
qed

text \<open>
  C2 as stated fails for Get, Post and Put when the body cannot be read: with status 200
  the operation does not succeed, and with status 500 the error holds neither the code
  nor what was read of the body.
\<close>

theorem client_status_counterexample:
  "fst (Get broken_server test_client ''ok'') =
     [\<lparr>Method = ''GET'', URL = ''https://h/api/ok'',
       Header = [''Authorization'' \<mapsto> [''s''], ''Content-Type'' \<mapsto> [''application/json'']],
       Body = None\<rparr>]
   \<and> Do broken_server (httpClient test_client)
         \<lparr>Method = ''GET'', URL = ''https://h/api/ok'',
          Header = [''Authorization'' \<mapsto> [''s''], ''Content-Type'' \<mapsto> [''application/json'']],
          Body = None\<rparr> =
       Inr \<lparr>StatusCode = 200, ReadAll = ([], Some (Error ''unexpected EOF''))\<rparr>
   \<and> snd (Get broken_server test_client ''ok'') =
       Inl (Error ''failed to read response: unexpected EOF'')
   \<and> snd (Post broken_server test_client ''ok'' ''p'') =
       Inl (Error ''failed to read response: unexpected EOF'')
   \<and> snd (Put broken_server test_client ''ok'' ''p'') =
       Inl (Error ''failed to read response: unexpected EOF'')
   \<and> Do broken_server (httpClient test_client)
         \<lparr>Method = ''GET'', URL = ''https://h/api/missing'',
          Header = [''Authorization'' \<mapsto> [''s''], ''Content-Type'' \<mapsto> [''application/json'']],
          Body = None\<rparr> =
       Inr \<lparr>StatusCode = 500, ReadAll = (''int'', Some (Error ''unexpected EOF''))\<rparr>
   \<and> snd (Get broken_server test_client ''missing'') =
       Inl (Error ''failed to read response: unexpected EOF'')"
proof -
  let ?hdr = "[''Authorization'' \<mapsto> [''s''], ''Content-Type'' \<mapsto> [''application/json'']]"
  let ?r200 = "\<lparr>StatusCode = 200, ReadAll = ([], Some (Error ''unexpected EOF''))\<rparr>"
  let ?r500 = "\<lparr>StatusCode = 500, ReadAll = (''int'', Some (Error ''unexpected EOF''))\<rparr>"
  note ev = test_requests test_server_parse test_server_Do
  have g: "snd (Get broken_server test_client ''ok'') =
      Inl (Error ''failed to read response: unexpected EOF'')"
    using Get_status [where env = broken_server and c = test_client and endpoint = "''ok''"
        and req = "\<lparr>Method = ''GET'', URL = ''https://h/api/ok'', Header = ?hdr, Body = None\<rparr>" and resp = "?r200"]
    by (simp add: ev)
  have po: "snd (Post broken_server test_client ''ok'' ''p'') =
      Inl (Error ''failed to read response: unexpected EOF'')"
    using Post_status [where env = broken_server and c = test_client and endpoint = "''ok''"
        and payload = "''p''" and req = "\<lparr>Method = ''POST'', URL = ''https://h/api/ok'', Header = ?hdr, Body = Some (quoted ''p'')\<rparr>" and resp = "?r200"]
    by (simp add: ev)
  have pu: "snd (Put broken_server test_client ''ok'' ''p'') =
      Inl (Error ''failed to read response: unexpected EOF'')"
    using Put_status [where env = broken_server and c = test_client and endpoint = "''ok''"
        and payload = "''p''" and req = "\<lparr>Method = ''PUT'', URL = ''https://h/api/ok'', Header = ?hdr, Body = Some (quoted ''p'')\<rparr>" and resp = "?r200"]
    by (simp add: ev)
  have g5: "snd (Get broken_server test_client ''missing'') =
      Inl (Error ''failed to read response: unexpected EOF'')"
    using Get_status [where env = broken_server and c = test_client and endpoint = "''missing''"
        and req = "\<lparr>Method = ''GET'', URL = ''https://h/api/missing'', Header = ?hdr, Body = None\<rparr>" and resp = "?r500"]
    by (simp add: ev)
  from g po pu g5 show ?thesis by (simp add: ev)
qed

section \<open>The dispatcher\<close>

lemma verifyConnectivity_no_flags:
  "verifyConnectivity env cfg [] =
     \<lparr>r_out =
        Println ''Verifying CyberArk API connectivity...''
        @ ''Base URL: '' @ BaseURL cfg @ nl
        @ Println ''API Secret: [REDACTED]''
        @ Println (nl @ check_mark @ '' Configuration loaded successfully'')
        @ Println (check_mark @ '' API credentials present'')
        @ Println (nl @ ''Note: Actual API connectivity test not yet implemented''),
      r_err = [], r_ret = Returned None\<rparr>"
  by (simp add: verifyConnectivity_def FlagSet_Parse_def)

lemma verifyConnectivity_returns_nil:
  "r_ret (verifyConnectivity env cfg args) \<noteq> Returned (Some e)"
  by (simp add: verifyConnectivity_def split: parsed.splits)

lemma main_verify:
  assumes "FlagSet_Parse (flag_Parse env) (''~/.cyberark_api'', False, []) argv =
             Parsed (cp, False, ''verify'' # rest)"
    and "loadConfig (os env) cp = (acc, Inr cfg)"
  shows "main env reg argv =
     \<lparr>stdout = r_out (verifyConnectivity env cfg rest),
      stderr = r_err (verifyConnectivity env cfg rest),
      exit_code = (case r_ret (verifyConnectivity env cfg rest) of
                     Exited code \<Rightarrow> code | Returned e \<Rightarrow> 0),
      accessed = acc, executed = []\<rparr>"
  using assms verifyConnectivity_returns_nil [of env cfg rest]
  by (simp add: main_def Let_def split: ret.splits option.splits)

lemma main_verify_load_fails:
  assumes "FlagSet_Parse (flag_Parse env) (''~/.cyberark_api'', False, []) argv =
             Parsed (cp, False, name # rest)"
    and "loadConfig (os env) cp = (acc, Inl e)"
  shows "main env reg argv =
     \<lparr>stdout = [], stderr = ''Error loading config: '' @ msg e @ nl, exit_code = 1,
      accessed = acc, executed = []\<rparr>"
  using assms by (simp add: main_def Let_def)

lemma test_cli_parse:
  "FlagSet_Parse (flag_Parse (test_cli fs)) (''~/.cyberark_api'', False, []) [''verify''] =
     Parsed (''~/.cyberark_api'', False, [''verify''])"
  "FlagSet_Parse (flag_Parse (test_cli fs)) (''~/.cyberark_api'', False, []) [''frobnicate''] =
     Parsed (''~/.cyberark_api'', False, [''frobnicate''])"
  by (simp_all add: FlagSet_Parse_def test_cli_def starts_positional_def)

lemma test_cli_os: "os (test_cli fs) = fs"
  by (simp add: test_cli_def)

text \<open>
  C5, as the code has it. With no argument at all, flag parsing leaves no positional
  argument: main prints \<^verbatim>\<open>Error: workflow name required\<close> and the usage text, both
  on standard output, writes nothing to the error stream, exits with status 1, and
  neither accesses a file nor calls a handler.
\<close>

theorem main_without_workflow_name:
  "main env reg [] =
     \<lparr>stdout = Println ''Error: workflow name required'' @ printUsage (range_keys env reg),
      stderr = [], exit_code = 1, accessed = [], executed = []\<rparr>"
  by (simp add: main_def FlagSet_Parse_def)

text \<open>
  C6. When the only positional argument is \<^verbatim>\<open>verify\<close> and the configuration loads,
  standard output is the fixed report with the line \<^verbatim>\<open>Base URL: \<close> followed by the
  base URL and the line \<^verbatim>\<open>API Secret: [REDACTED]\<close>, nothing is written to the error
  stream and the exit status is 0. A second run whose configuration differs from the
  first only in the API secret prints the same on both streams and exits alike.
\<close>

theorem verify_output_independent_of_secret:
  assumes "FlagSet_Parse (flag_Parse env) (''~/.cyberark_api'', False, []) argv =
             Parsed (cp, False, [''verify''])"
    and "snd (loadConfig (os env) cp) = Inr cfg"
    and "FlagSet_Parse (flag_Parse env') (''~/.cyberark_api'', False, []) argv' =
             Parsed (cp', False, [''verify''])"
    and "snd (loadConfig (os env') cp') = Inr (cfg\<lparr>APISecret := secret'\<rparr>)"
  shows "stdout (main env reg argv) =
           Println ''Verifying CyberArk API connectivity...''
           @ ''Base URL: '' @ BaseURL cfg @ nl
           @ Println ''API Secret: [REDACTED]''
           @ Println (nl @ check_mark @ '' Configuration loaded successfully'')
           @ Println (check_mark @ '' API credentials present'')
           @ Println (nl @ ''Note: Actual API connectivity test not yet implemented'')
         \<and> stderr (main env reg argv) = []
         \<and> exit_code (main env reg argv) = 0
         \<and> stdout (main env' reg' argv') = stdout (main env reg argv)
         \<and> stderr (main env' reg' argv') = stderr (main env reg argv)
         \<and> exit_code (main env' reg' argv') = exit_code (main env reg argv)"
proof -
  obtain acc where l1: "loadConfig (os env) cp = (acc, Inr cfg)"
    using assms(2) by (cases "loadConfig (os env) cp") simp
  obtain acc' where l2: "loadConfig (os env') cp' = (acc', Inr (cfg\<lparr>APISecret := secret'\<rparr>))"
    using assms(4) by (cases "loadConfig (os env') cp'") simp
  show ?thesis
    by (simp add: main_verify [OF assms(1) l1] main_verify [OF assms(3) l2]
        verifyConnectivity_no_flags)
qed

theorem verify_output_independent_of_secret_witness:
  "stdout (main (test_cli unix_os) Map.empty [''verify'']) =
     Println ''Verifying CyberArk API connectivity...''
     @ Println ''Base URL: https://h/api''
     @ Println ''API Secret: [REDACTED]''
     @ Println (nl @ check_mark @ '' Configuration loaded successfully'')
     @ Println (check_mark @ '' API credentials present'')
     @ Println (nl @ ''Note: Actual API connectivity test not yet implemented'')
   \<and> exit_code (main (test_cli unix_os) Map.empty [''verify'']) = 0
   \<and> snd (loadConfig unix_os2 ''~/.cyberark_api'') =
       Inr \<lparr>APISecret = ''another-secret'', BaseURL = ''https://h/api'', Username = [],
            Timeout = 0\<rparr>
   \<and> stdout (main (test_cli unix_os2) Map.empty [''verify'']) =
       stdout (main (test_cli unix_os) Map.empty [''verify''])
   \<and> stderr (main (test_cli unix_os2) Map.empty [''verify'']) = []
   \<and> exit_code (main (test_cli unix_os2) Map.empty [''verify'']) = 0"
proof -
  let ?cfg = "\<lparr>APISecret = ''s'', BaseURL = ''https://h/api'', Username = [], Timeout = 0\<rparr>"
  have l1: "snd (loadConfig (os (test_cli unix_os)) ''~/.cyberark_api'') = Inr ?cfg"
    by (simp add: test_cli_os loadConfig_unix_os)
  have l2: "snd (loadConfig (os (test_cli unix_os2)) ''~/.cyberark_api'') =
              Inr (?cfg\<lparr>APISecret := ''another-secret''\<rparr>)"
    by (simp add: test_cli_os loadConfig_unix_os2)
  show ?thesis
    using verify_output_independent_of_secret
      [OF test_cli_parse(1) l1 test_cli_parse(1) l2, of Map.empty Map.empty] l2
    by (simp add: Println_def test_cli_os)
qed

text \<open>
  C9. For a workflow name other than \<^verbatim>\<open>verify\<close> that is not in the registry, no
  handler is called and the exit status is 1; when the configuration has loaded, so that
  the lookup is reached, the error stream holds \<^verbatim>\<open>Error: unknown workflow '<name>'\<close>
  and standard output holds the usage text.
\<close>

theorem unknown_workflow_rejected:
  assumes "FlagSet_Parse (flag_Parse env) (''~/.cyberark_api'', False, []) argv =
             Parsed (cp, False, name # rest)"
    and "name \<noteq> ''verify''" and "reg name = None"
  shows "executed (main env reg argv) = []
         \<and> exit_code (main env reg argv) = 1
         \<and> (\<forall>acc cfg. loadConfig (os env) cp = (acc, Inr cfg) \<longrightarrow>
               main env reg argv =
                 \<lparr>stdout = printUsage (range_keys env reg),
                  stderr = ''Error: unknown workflow '' @ [CHR 0x27] @ name @ [CHR 0x27] @ nl,
                  exit_code = 1, accessed = acc, executed = []\<rparr>)"
  using assms
  by (cases "loadConfig (os env) cp") (auto simp: main_def Let_def split: sum.splits)

theorem unknown_workflow_rejected_witness:
  "''frobnicate'' \<noteq> ''verify'' \<and> [''list-accounts'' \<mapsto> (0::nat)] ''frobnicate'' = None
   \<and> main (test_cli unix_os) [''list-accounts'' \<mapsto> 0] [''frobnicate''] =
       \<lparr>stdout = printUsage [''list-accounts''],
        stderr = ''Error: unknown workflow '' @ [CHR 0x27] @ ''frobnicate'' @ [CHR 0x27] @ nl,
        exit_code = 1,
        accessed = [StatCall ''/home/u/.cyberark_api'', ReadFileCall ''/home/u/.cyberark_api''],
        executed = []\<rparr>"
proof -
  have n: "''frobnicate'' \<noteq> ''verify''" by simp
  have r: "[''list-accounts'' \<mapsto> (0::nat)] ''frobnicate'' = None" by simp
  have k: "range_keys (test_cli unix_os) [''list-accounts'' \<mapsto> (0::nat)] = [''list-accounts'']"
    by (simp add: test_cli_def)
  show ?thesis
    using unknown_workflow_rejected
      [where env = "test_cli unix_os" and reg = "[''list-accounts'' \<mapsto> (0::nat)]"
         and name = "''frobnicate''", OF test_cli_parse(2) n r] n r k
    by (simp add: test_cli_os loadConfig_unix_os)
qed

text \<open>
  C10. With \<^verbatim>\<open>verify\<close> as the workflow name, a handler registered under
  \<^verbatim>\<open>verify\<close> is never called and changes nothing in the run; when the configuration
  has loaded, the run is that of the built-in verifyConnectivity on the remaining
  arguments.
\<close>

theorem verify_shadows_registry:
  assumes "FlagSet_Parse (flag_Parse env) (''~/.cyberark_api'', False, []) argv =
             Parsed (cp, False, ''verify'' # rest)"
  shows "executed (main env (RegisterWorkflow ''verify'' h reg) argv) = []
         \<and> main env (RegisterWorkflow ''verify'' h reg) argv = main env reg argv
         \<and> (\<forall>acc cfg. loadConfig (os env) cp = (acc, Inr cfg) \<longrightarrow>
               main env (RegisterWorkflow ''verify'' h reg) argv =
                 \<lparr>stdout = r_out (verifyConnectivity env cfg rest),
                  stderr = r_err (verifyConnectivity env cfg rest),
                  exit_code = (case r_ret (verifyConnectivity env cfg rest) of
                                 Exited code \<Rightarrow> code | Returned e \<Rightarrow> 0),
                  accessed = acc, executed = []\<rparr>)"
proof -
  obtain acc r where l: "loadConfig (os env) cp = (acc, r)"
    by (cases "loadConfig (os env) cp")
  show ?thesis
  proof (cases r)
    case (Inl e)
    with l show ?thesis by (simp add: main_verify_load_fails [OF assms])
  next
    case (Inr cfg)
    with l show ?thesis by (simp add: main_verify [OF assms])
  qed
qed


theorem verify_shadows_registry_witness:
  "RegisterWorkflow ''verify'' (5::nat) Map.empty ''verify'' = Some 5
   \<and> main (test_cli unix_os) (RegisterWorkflow ''verify'' 5 Map.empty) [''verify''] =
       \<lparr>stdout =
          Println ''Verifying CyberArk API connectivity...''
          @ Println ''Base URL: https://h/api''
          @ Println ''API Secret: [REDACTED]''
          @ Println (nl @ check_mark @ '' Configuration loaded successfully'')
          @ Println (check_mark @ '' API credentials present'')
          @ Println (nl @ ''Note: Actual API connectivity test not yet implemented''),
        stderr = [], exit_code = 0,
        accessed = [StatCall ''/home/u/.cyberark_api'', ReadFileCall ''/home/u/.cyberark_api''],
        executed = []\<rparr>"
proof -
  let ?cfg = "\<lparr>APISecret = ''s'', BaseURL = ''https://h/api'', Username = [], Timeout = 0\<rparr>"
  let ?acc = "[StatCall ''/home/u/.cyberark_api'', ReadFileCall ''/home/u/.cyberark_api'']"
  have l: "loadConfig (os (test_cli unix_os)) ''~/.cyberark_api'' = (?acc, Inr ?cfg)"
    by (simp add: test_cli_os loadConfig_unix_os)
  have "main (test_cli unix_os) (RegisterWorkflow ''verify'' 5 Map.empty) [''verify''] =
          \<lparr>stdout = r_out (verifyConnectivity (test_cli unix_os) ?cfg []),
           stderr = r_err (verifyConnectivity (test_cli unix_os) ?cfg []),
           exit_code = (case r_ret (verifyConnectivity (test_cli unix_os) ?cfg []) of
                          Exited code \<Rightarrow> code | Returned e \<Rightarrow> 0),
           accessed = ?acc, executed = []\<rparr>"
    using verify_shadows_registry [OF test_cli_parse(1), of unix_os 5 Map.empty] l by blast
  then show ?thesis
    by (simp add: verifyConnectivity_no_flags RegisterWorkflow_def Println_def)
qed


end
